theory Spec2Isabelle
  imports Main "HOL-Library.Char_ord" "HOL-Library.List_Lexorder" "HOL-Library.Multiset"
begin

section \<open>Python strings\<close>

text \<open>
  A Python \<open>str\<close> is modelled as a \<open>string\<close>, the list of its UTF-8 bytes.  The order on
  strings is the lexicographic order on bytes, which is the code-point order that Python's
  \<open>sorted\<close> uses.
\<close>

definition NL :: string where
  "NL = [CHR 0x0A]"

definition TAB :: string where
  "TAB = [CHR 0x09]"

text \<open>\<open>s.startswith(p)\<close> and \<open>s.endswith(p)\<close>.\<close>

definition startswith :: "string \<Rightarrow> string \<Rightarrow> bool" where
  "startswith s p = (take (length p) s = p)"

definition endswith :: "string \<Rightarrow> string \<Rightarrow> bool" where
  "endswith s p = (length p \<le> length s \<and> drop (length s - length p) s = p)"

text \<open>\<open>s.split(c)\<close> for a one-character separator: always at least one field.\<close>

fun split_on :: "char \<Rightarrow> string \<Rightarrow> string list" where
  "split_on c [] = [[]]"
| "split_on c (x # xs) =
     (if x = c then [] # split_on c xs
      else (case split_on c xs of
              [] \<Rightarrow> [[x]]
            | r # rs \<Rightarrow> (x # r) # rs))"

text \<open>\<open>sep.join(xs)\<close> for the separator \<open>/\<close>.\<close>

fun join_slash :: "string list \<Rightarrow> string" where
  "join_slash [] = []"
| "join_slash [x] = x"
| "join_slash (x # y # ys) = x @ ''/'' @ join_slash (y # ys)"

text \<open>\<open>s.rstrip("/")\<close>.\<close>

definition rstrip_slash :: "string \<Rightarrow> string" where
  "rstrip_slash s = rev (dropWhile (\<lambda>c. c = CHR ''/'') (rev s))"

text \<open>
  \<open>s.strip()\<close> and \<open>s.splitlines()\<close>, for the ASCII white space and the ASCII line
  boundaries (\<open>\n\<close>, \<open>\r\<close>, \<open>\r\n\<close>, \<open>\v\<close>, \<open>\f\<close>, \<open>\x1c\<close>, \<open>\x1d\<close>, \<open>\x1e\<close>).
  The line boundaries outside ASCII are not modelled.
\<close>

definition is_space :: "char \<Rightarrow> bool" where
  "is_space c = (c \<in> {CHR 0x09, CHR 0x0A, CHR 0x0B, CHR 0x0C, CHR 0x0D,
                        CHR 0x1C, CHR 0x1D, CHR 0x1E, CHR 0x1F, CHR 0x20})"

definition strip :: "string \<Rightarrow> string" where
  "strip s = rev (dropWhile is_space (rev (dropWhile is_space s)))"

definition is_linebreak :: "char \<Rightarrow> bool" where
  "is_linebreak c = (c \<in> {CHR 0x0A, CHR 0x0B, CHR 0x0C, CHR 0x0D, CHR 0x1C, CHR 0x1D, CHR 0x1E})"

fun splitlines_from :: "string \<Rightarrow> string \<Rightarrow> string list" where
  "splitlines_from cur [] = (if cur = [] then [] else [cur])"
| "splitlines_from cur [c] = (if is_linebreak c then [cur] else [cur @ [c]])"
| "splitlines_from cur (c # d # cs) =
     (if c = CHR 0x0D \<and> d = CHR 0x0A then cur # splitlines_from [] cs
      else if is_linebreak c then cur # splitlines_from [] (d # cs)
      else splitlines_from (cur @ [c]) (d # cs))"

definition splitlines :: "string \<Rightarrow> string list" where
  "splitlines s = splitlines_from [] s"

definition rstrip_nl :: "string \<Rightarrow> string" where
  "rstrip_nl s = rev (dropWhile (\<lambda>c. c = CHR 0x0A) (rev s))"

text \<open>
  \<open>s.lower()\<close>.  The program compares its result only with ASCII words, so what matters
  is which strings it turns into ASCII: an ASCII capital becomes the small letter, and
  the Kelvin sign (U+212A, the bytes \<open>E2 84 AA\<close>) becomes \<open>k\<close>; no other character outside
  ASCII has a lower-case form in ASCII.  Every other byte is left as it is, so a string
  with any other character outside ASCII stays outside ASCII, as it does in Python.
\<close>

definition lower_char :: "char \<Rightarrow> char" where
  "lower_char c =
     (case map_of (zip ''ABCDEFGHIJKLMNOPQRSTUVWXYZ'' ''abcdefghijklmnopqrstuvwxyz'') c of
        None \<Rightarrow> c
      | Some l \<Rightarrow> l)"

fun lower :: "string \<Rightarrow> string" where
  "lower (a # b # c # cs) =
     (if a = CHR 0xE2 \<and> b = CHR 0x84 \<and> c = CHR 0xAA then CHR ''k'' # lower cs
      else lower_char a # lower (b # c # cs))"
| "lower (a # cs) = lower_char a # lower cs"
| "lower [] = []"

text \<open>
  \<open>s.split("..", 1)\<close>: the text before and after the first occurrence of two dots;
  \<open>None\<close> when \<open>".." not in s\<close>.
\<close>

fun split_dotdot :: "string \<Rightarrow> (string \<times> string) option" where
  "split_dotdot [] = None"
| "split_dotdot [c] = None"
| "split_dotdot (c # d # cs) =
     (if c = CHR ''.'' \<and> d = CHR ''.'' then Some ([], cs)
      else map_option (\<lambda>(a, b). (c # a, b)) (split_dotdot (d # cs)))"

text \<open>\<open>str(n)\<close> for a natural number.\<close>

definition digit_char :: "nat \<Rightarrow> char" where
  "digit_char n = ''0123456789'' ! n"

function show_nat :: "nat \<Rightarrow> string" where
  "show_nat n = (if n < 10 then [digit_char n] else show_nat (n div 10) @ [digit_char (n mod 10)])"
  by pat_completeness auto
termination
  by (relation "measure (\<lambda>n. n)") auto

section \<open>Paths: \<open>pathlib\<close> and \<open>os.path\<close> on POSIX\<close>

text \<open>
  A \<open>pathlib.Path\<close> is modelled by its \<open>as_posix()\<close> string.  Constructing a path drops
  empty and \<open>.\<close> segments and keeps \<open>..\<close> segments.  (POSIX gives a path that starts with
  exactly two slashes a root of its own; that case is not distinguished here.)
\<close>

definition is_absolute :: "string \<Rightarrow> bool" where
  "is_absolute s = startswith s ''/''"

definition path_parts :: "string \<Rightarrow> string list" where
  "path_parts s = filter (\<lambda>x. x \<noteq> [] \<and> x \<noteq> ''.'') (split_on CHR ''/'' s)"

definition from_parts :: "bool \<Rightarrow> string list \<Rightarrow> string" where
  "from_parts ab ps =
     (if ab then ''/'' @ join_slash ps
      else if ps = [] then ''.'' else join_slash ps)"

text \<open>\<open>Path(s).as_posix()\<close>.\<close>

definition as_posix :: "string \<Rightarrow> string" where
  "as_posix s = from_parts (is_absolute s) (path_parts s)"

text \<open>\<open>Path(a) / b\<close>: an absolute right operand replaces the left one.\<close>

definition path_join :: "string \<Rightarrow> string \<Rightarrow> string" where
  "path_join a b = (if is_absolute b then as_posix b else as_posix (a @ ''/'' @ b))"

text \<open>\<open>Path(s).parent\<close> and \<open>Path(s).name\<close>.\<close>

definition path_parent :: "string \<Rightarrow> string" where
  "path_parent s = from_parts (is_absolute s) (butlast (path_parts s))"

definition path_name :: "string \<Rightarrow> string" where
  "path_name s = (case path_parts s of [] \<Rightarrow> [] | p # ps \<Rightarrow> last (p # ps))"

text \<open>\<open>Path(p).relative_to(other)\<close>; \<open>None\<close> is its \<open>ValueError\<close>.\<close>

definition relative_to :: "string \<Rightarrow> string \<Rightarrow> string option" where
  "relative_to p other =
     (let pp = path_parts p; po = path_parts other
      in if is_absolute p = is_absolute other \<and> take (length po) pp = po
         then Some (from_parts False (drop (length po) pp))
         else None)"

text \<open>
  \<open>os.path.normpath\<close>: the loop over the components keeps the list \<open>new_comps\<close>; a \<open>..\<close>
  removes the last kept component, unless the path is relative and nothing (or only \<open>..\<close>)
  has been kept.
\<close>

fun normpath_loop :: "bool \<Rightarrow> string list \<Rightarrow> string list \<Rightarrow> string list" where
  "normpath_loop ab new_comps [] = new_comps"
| "normpath_loop ab new_comps (cmp # comps) =
     (if cmp = [] \<or> cmp = ''.'' then normpath_loop ab new_comps comps
      else if cmp \<noteq> ''..'' \<or> (\<not> ab \<and> new_comps = [])
              \<or> (new_comps \<noteq> [] \<and> last new_comps = ''..'')
        then normpath_loop ab (new_comps @ [cmp]) comps
      else if new_comps \<noteq> [] then normpath_loop ab (butlast new_comps) comps
      else normpath_loop ab new_comps comps)"

definition normpath :: "string \<Rightarrow> string" where
  "normpath path =
     (if path = [] then ''.''
      else
        let ab = startswith path ''/'';
            slashes = (if ab \<and> startswith path ''//'' \<and> \<not> startswith path ''///''
                       then ''//'' else if ab then ''/'' else []);
            p = slashes @ join_slash (normpath_loop ab [] (split_on CHR ''/'' path))
        in if p = [] then ''.'' else p)"

text \<open>\<open>os.path.join(a, b)\<close> and \<open>os.path.abspath(p)\<close>, given the working directory.\<close>

definition os_join :: "string \<Rightarrow> string \<Rightarrow> string" where
  "os_join a b =
     (if startswith b ''/'' then b
      else if a = [] \<or> endswith a ''/'' then a @ b
      else a @ ''/'' @ b)"

definition abspath :: "string \<Rightarrow> string \<Rightarrow> string" where
  "abspath cwd p = normpath (if startswith p ''/'' then p else os_join cwd p)"

text \<open>The length of the longest common prefix of two lists (\<open>os.path.commonprefix\<close>).\<close>

fun common_len :: "'a list \<Rightarrow> 'a list \<Rightarrow> nat" where
  "common_len (x # xs) (y # ys) = (if x = y then Suc (common_len xs ys) else 0)"
| "common_len _ _ = 0"

text \<open>
  \<open>os.path.relpath(path, start)\<close> for a non-empty \<open>path\<close> (the empty path raises
  \<open>ValueError\<close>; see \<open>build_output_lines_flat\<close> below for where that is modelled).
\<close>

definition os_relpath :: "string \<Rightarrow> string \<Rightarrow> string \<Rightarrow> string" where
  "os_relpath cwd path start =
     (let start_list = filter (\<lambda>x. x \<noteq> []) (split_on CHR ''/'' (abspath cwd start));
          path_list = filter (\<lambda>x. x \<noteq> []) (split_on CHR ''/'' (abspath cwd path));
          i = common_len start_list path_list;
          rel_list = replicate (length start_list - i) ''..'' @ drop i path_list
      in if rel_list = [] then ''.'' else join_slash rel_list)"

text \<open>The source's \<open>relpath_posix(p, start)\<close>.\<close>

definition relpath_posix :: "string \<Rightarrow> string \<Rightarrow> string \<Rightarrow> string" where
  "relpath_posix cwd p start = as_posix (os_relpath cwd p start)"

section \<open>Python sets and dictionaries\<close>

text \<open>
  A Python \<open>set\<close> of strings is a finite \<open>string set\<close>.  Python fixes no order in which
  a loop visits the elements of a set (for strings it changes from run to run with the
  hash seed), so every loop over a set that does not go through \<open>sorted\<close> takes the
  order from a parameter: a function that lists the elements of a set.
\<close>

type_synonym set_order = "string set \<Rightarrow> string list"

definition valid_order :: "set_order \<Rightarrow> bool" where
  "valid_order it = (\<forall>S. finite S \<longrightarrow> set (it S) = S \<and> distinct (it S))"

text \<open>
  \<open>collections.defaultdict\<close> as an association list in insertion order:
  \<open>d[k].append(v)\<close>, \<open>d[k].add(v)\<close>, \<open>d.keys()\<close> and \<open>sorted(d.get(k, []))\<close>.
\<close>

fun dd_append :: "(string \<times> string list) list \<Rightarrow> string \<Rightarrow> string \<Rightarrow> (string \<times> string list) list" where
  "dd_append [] k v = [(k, [v])]"
| "dd_append ((k', vs) # d) k v =
     (if k' = k then (k', vs @ [v]) # d else (k', vs) # dd_append d k v)"

fun dd_add :: "(string \<times> string set) list \<Rightarrow> string \<Rightarrow> string \<Rightarrow> (string \<times> string set) list" where
  "dd_add [] k v = [(k, {v})]"
| "dd_add ((k', vs) # d) k v =
     (if k' = k then (k', insert v vs) # d else (k', vs) # dd_add d k v)"

definition dd_keys :: "(string \<times> 'a) list \<Rightarrow> string list" where
  "dd_keys d = map fst d"

definition sorted_files :: "(string \<times> string list) list \<Rightarrow> string \<Rightarrow> string list" where
  "sorted_files d k = (case map_of d k of None \<Rightarrow> [] | Some vs \<Rightarrow> sort vs)"

definition sorted_specs :: "(string \<times> string set) list \<Rightarrow> string \<Rightarrow> string list" where
  "sorted_specs d k = (case map_of d k of None \<Rightarrow> [] | Some vs \<Rightarrow> sorted_list_of_set vs)"

section \<open>\<open>os.path.commonpath\<close>\<close>

text \<open>
  The loop of \<open>commonpath\<close> over the smallest split path \<open>s1\<close>, reading the largest one
  \<open>s2\<close> by index; \<open>None\<close> is the \<open>IndexError\<close> of \<open>s2[i]\<close>.
\<close>

fun common_loop :: "string list \<Rightarrow> string list \<Rightarrow> string list option" where
  "common_loop [] s2 = Some []"
| "common_loop (c # s1) [] = None"
| "common_loop (c # s1) (d # s2) =
     (if c \<noteq> d then Some [] else map_option ((#) c) (common_loop s1 s2))"

text \<open>\<open>None\<close> is an exception: the empty list, a mix of absolute and relative paths.\<close>

definition commonpath :: "string list \<Rightarrow> string option" where
  "commonpath paths =
     (case map (\<lambda>p. filter (\<lambda>c. c \<noteq> [] \<and> c \<noteq> ''.'') (split_on CHR ''/'' p)) paths of
        [] \<Rightarrow> None
      | s # ss \<Rightarrow>
          if (\<exists>p \<in> set paths. startswith p ''/'') \<and> (\<exists>p \<in> set paths. \<not> startswith p ''/'')
          then None
          else (case common_loop (fold min ss s) (fold max ss s) of
                  None \<Rightarrow> None
                | Some common \<Rightarrow>
                    Some ((if startswith (hd paths) ''/'' then ''/'' else []) @ join_slash common)))"

section \<open>The formatter\<close>

text \<open>
  \<open>build_output_lines_flat\<close>.  \<open>to_rel\<close> raises \<open>ValueError\<close> on an empty path, and the
  function renders every path it is given, so it raises exactly when one of them is
  empty: that is the result \<open>None\<close>.  The function has no effect before it raises.
\<close>

definition flat_lines ::
  "set_order \<Rightarrow> string \<Rightarrow> string set \<Rightarrow> string set \<Rightarrow> string \<Rightarrow> string \<Rightarrow> string list \<Rightarrow> string list" where
  "flat_lines it cwd abs_spec abs_m order_mode out_dir include_specs_abs =
     (let to_rel = (\<lambda>p. relpath_posix cwd p out_dir);
          lines = map (\<lambda>p. ''+'' @ to_rel p) include_specs_abs
      in if order_mode = ''spec-first''
         then lines @ map (\<lambda>p. ''+'' @ to_rel p) (sorted_list_of_set abs_spec)
                    @ map to_rel (sorted_list_of_set abs_m)
         else let both = map (\<lambda>p. (0::nat, ''+'' @ to_rel p)) (it abs_spec)
                         @ map (\<lambda>p. (1, to_rel p)) (it abs_m)
              in lines @ map snd (sort_key snd both))"

definition build_output_lines_flat ::
  "set_order \<Rightarrow> string \<Rightarrow> string set \<Rightarrow> string set \<Rightarrow> string \<Rightarrow> string \<Rightarrow> string list
     \<Rightarrow> string list option" where
  "build_output_lines_flat it cwd abs_spec abs_m order_mode out_dir include_specs_abs =
     (if [] \<in> set include_specs_abs \<or> [] \<in> abs_spec \<or> [] \<in> abs_m then None
      else Some (flat_lines it cwd abs_spec abs_m order_mode out_dir include_specs_abs))"

text \<open>
  \<open>build_output_lines_curly\<close>.  The two loops that list the plain files and then the
  \<open>+\<close> entries of one directory occur four times in the source, with three indentations.
\<close>

definition dir_entries ::
  "string \<Rightarrow> (string \<times> string list) list \<Rightarrow> (string \<times> string set) list \<Rightarrow> string \<Rightarrow> string list" where
  "dir_entries indent dir_to_files dir_to_spec_files d =
     map (\<lambda>fname. indent @ fname) (sorted_files dir_to_files d)
     @ map (\<lambda>spec_name. indent @ ''+'' @ spec_name) (sorted_specs dir_to_spec_files d)"

definition group_m :: "set_order \<Rightarrow> string \<Rightarrow> string set \<Rightarrow> string \<Rightarrow> (string \<times> string list) list" where
  "group_m it cwd abs_m out_dir =
     foldl (\<lambda>d abs_path.
              let rel = relpath_posix cwd abs_path out_dir
              in dd_append d (path_parent rel) (path_name rel))
       [] (it abs_m)"

definition group_spec :: "set_order \<Rightarrow> string \<Rightarrow> string set \<Rightarrow> string \<Rightarrow> (string \<times> string set) list" where
  "group_spec it cwd abs_spec out_dir =
     foldl (\<lambda>d abs_path.
              let rel = relpath_posix cwd abs_path out_dir
              in dd_add d (path_parent rel) (path_name rel))
       [] (it abs_spec)"

definition find_common_dir :: "string list \<Rightarrow> string option" where
  "find_common_dir nonempty_dirs =
     (if length nonempty_dirs > 1 then
        (case commonpath nonempty_dirs of
           None \<Rightarrow> None
         | Some candidate \<Rightarrow>
             if candidate \<noteq> [] \<and> candidate \<noteq> ''.'' \<and>
                (\<forall>d \<in> set nonempty_dirs.
                    d = candidate \<or> startswith d (rstrip_slash candidate @ ''/''))
             then Some (rstrip_slash candidate) else None)
      else None)"

definition sub_block ::
  "(string \<times> string list) list \<Rightarrow> (string \<times> string set) list \<Rightarrow> string \<Rightarrow> string \<Rightarrow> string list" where
  "sub_block dir_to_files dir_to_spec_files pref d =
     (let rel = rstrip_slash (drop (length pref) d)
      in [''  '' @ rel @ ''/'', ''  {'']
         @ dir_entries ''    '' dir_to_files dir_to_spec_files d
         @ [''  }''])"

text \<open>The part of the function after the directories have been collected.\<close>

definition curly_blocks ::
  "(string \<times> string list) list \<Rightarrow> (string \<times> string set) list \<Rightarrow> string list \<Rightarrow> string list" where
  "curly_blocks dir_to_files dir_to_spec_files all_dirs =
     (let nonempty_dirs = filter (\<lambda>d. d \<noteq> []) all_dirs;
          common_dir = find_common_dir nonempty_dirs
      in if common_dir \<noteq> None \<and> common_dir \<noteq> Some [] then
           (let cd = the common_dir; pref = cd @ ''/''
            in [cd @ ''/'', ''{'']
               @ dir_entries ''  '' dir_to_files dir_to_spec_files cd
               @ concat (map (\<lambda>d. if d = [] \<or> d = cd then []
                                   else if \<not> startswith d pref then []
                                   else sub_block dir_to_files dir_to_spec_files pref d)
                           all_dirs)
               @ [''}''])
         else
           concat (map (\<lambda>d. if d \<noteq> [] then
                                [rstrip_slash d @ ''/'', ''{'']
                                @ dir_entries ''  '' dir_to_files dir_to_spec_files d
                                @ [''}'']
                              else dir_entries ''  '' dir_to_files dir_to_spec_files d)
                    all_dirs))"

definition curly_lines ::
  "set_order \<Rightarrow> string \<Rightarrow> string set \<Rightarrow> string set \<Rightarrow> string \<Rightarrow> string list \<Rightarrow> string list" where
  "curly_lines it cwd abs_spec abs_m out_dir include_specs_abs =
     (let lines = map (\<lambda>p. ''+'' @ relpath_posix cwd p out_dir) include_specs_abs;
          dir_to_files = group_m it cwd abs_m out_dir;
          dir_to_spec_files = group_spec it cwd abs_spec out_dir;
          norm_dirs = map (\<lambda>d. if d = ''.'' then [] else d)
                        (it (set (dd_keys dir_to_files @ dd_keys dir_to_spec_files)));
          all_dirs = sorted_list_of_set (set norm_dirs)
      in lines @ curly_blocks dir_to_files dir_to_spec_files all_dirs)"

definition build_output_lines_curly ::
  "set_order \<Rightarrow> string \<Rightarrow> string set \<Rightarrow> string set \<Rightarrow> string \<Rightarrow> string list
     \<Rightarrow> string list option" where
  "build_output_lines_curly it cwd abs_spec abs_m out_dir include_specs_abs =
     (if [] \<in> set include_specs_abs \<or> [] \<in> abs_spec \<or> [] \<in> abs_m then None
      else Some (curly_lines it cwd abs_spec abs_m out_dir include_specs_abs))"

section \<open>The environment of a run\<close>

text \<open>
  The parsed TOML configuration.  A key that \<open>main\<close> reads with \<open>get(key, default)\<close> is
  an option (\<open>None\<close>: the key is absent); a list that it reads with
  \<open>get(key, []) or []\<close> is a list, empty when the key is absent.  Values have the types
  the tool expects.
\<close>

record config =
  cfg_repo_dir :: "string option"
  cfg_baseline :: "string option"
  cfg_target :: "string option"
  cfg_fetch :: "bool option"
  sel_commits :: "string list"
  sel_ranges :: "string list"
  sel_paths :: "string list"
  opt_restrict_prefixes :: "string list option"
  opt_order :: "string option"
  opt_baseline_mode :: "string option"
  opt_output_format :: "string option"
  opt_include_uncommitted :: "bool option"
  cfg_include_specs :: "string list"
  opt_include_specs :: "string list"
  cfg_output :: "string option"
  opt_output :: "string option"

text \<open>
  What \<open>argparse\<close> makes of the command line: it returns the namespace, or prints the
  help text on standard output and exits with status 0 (\<open>-h\<close>, \<open>--help\<close>), or prints a
  usage message on the diagnostic stream and exits with status 2 (no configuration
  argument, an unknown option).
\<close>

datatype cli = Cli_ok | Cli_help string | Cli_error string

text \<open>
  What a run reads from outside: the command line, the working directory, the file
  system, the TOML parser, \<open>git\<close>, and the order in which Python lists a set.
  \<open>arg_config\<close> and \<open>arg_output\<close> are the fields of the namespace that \<open>parse_args\<close>
  returns when it returns.  \<open>git cmd\<close> is \<open>Inr stdout\<close> when the command exits with
  status 0 and \<open>Inl stderr\<close> otherwise (\<open>subprocess.CalledProcessError\<close>).  An
  option-valued field is \<open>None\<close> where the library call raises.
\<close>

record env =
  cli :: cli
  arg_config :: string
  arg_output :: "string option"
  cwd :: string
  home_dir :: "string \<Rightarrow> string option"
  fs_resolve :: "string \<Rightarrow> string option"
  fs_is_file :: "string \<Rightarrow> bool"
  fs_is_dir :: "string \<Rightarrow> bool"
  fs_exists :: "string \<Rightarrow> bool"
  toml_load :: "string \<Rightarrow> config option"
  git :: "string list \<Rightarrow> string + string"
  fs_can_create :: "string \<Rightarrow> bool"
  fs_can_replace :: "string \<Rightarrow> string \<Rightarrow> bool"
  hash_order :: set_order

text \<open>
  What a run changes: the commands it has run, what it has printed on the diagnostic
  stream and on standard output, and the contents of the files it writes.
\<close>

record world =
  cmds :: "string list list"
  err :: "string list"
  out :: "string list"
  files :: "string \<Rightarrow> string option"

text \<open>
  A run is cut short by \<open>sys.exit(2)\<close>, by the exit with status 0 that \<open>argparse\<close> makes
  after printing the help text, or by an exception that nothing catches (the
  interpreter prints a traceback and exits with status 1).
\<close>

datatype stop = SysExit2 | SysExit0 | Uncaught

type_synonym 'a act = "world \<Rightarrow> (stop + 'a) \<times> world"

definition ret :: "'a \<Rightarrow> 'a act" where
  "ret x w = (Inr x, w)"

definition bnd :: "'a act \<Rightarrow> ('a \<Rightarrow> 'b act) \<Rightarrow> 'b act" where
  "bnd m f w = (case m w of (Inl s, w') \<Rightarrow> (Inl s, w') | (Inr x, w') \<Rightarrow> f x w')"

definition uncaught :: "'a act" where
  "uncaught w = (Inl Uncaught, w)"

definition sys_exit2 :: "'a act" where
  "sys_exit2 w = (Inl SysExit2, w)"

definition sys_exit0 :: "'a act" where
  "sys_exit0 w = (Inl SysExit0, w)"

definition print_err :: "string \<Rightarrow> unit act" where
  "print_err msg w = (Inr (), w\<lparr>err := err w @ [msg]\<rparr>)"

definition print_out :: "string \<Rightarrow> unit act" where
  "print_out msg w = (Inr (), w\<lparr>out := out w @ [msg]\<rparr>)"

definition fatal :: "string \<Rightarrow> 'a act" where
  "fatal msg = bnd (print_err msg) (\<lambda>_. sys_exit2)"

definition lift_opt :: "'a option \<Rightarrow> 'a act" where
  "lift_opt x = (case x of None \<Rightarrow> uncaught | Some v \<Rightarrow> ret v)"

text \<open>The source's \<open>run(cmd)\<close>: the caller handles \<open>CalledProcessError\<close>.\<close>

definition run :: "env \<Rightarrow> string list \<Rightarrow> (string + string) act" where
  "run e cmd w = (Inr (git e cmd), w\<lparr>cmds := cmds w @ [cmd]\<rparr>)"

text \<open>
  \<open>Path(p).resolve()\<close> and \<open>Path(p).expanduser()\<close>.  The result of \<open>resolve\<close> is a
  \<open>Path\<close> again.  \<open>expanduser\<close> replaces a first segment \<open>~\<close> or \<open>~user\<close> of a relative
  path by that user's home directory and raises when there is none.
\<close>

definition resolve :: "env \<Rightarrow> string \<Rightarrow> string option" where
  "resolve e p = map_option as_posix (fs_resolve e (as_posix p))"

definition expanduser :: "env \<Rightarrow> string \<Rightarrow> string option" where
  "expanduser e p =
     (case path_parts p of
        [] \<Rightarrow> Some (as_posix p)
      | seg # segs \<Rightarrow>
          if \<not> is_absolute p \<and> startswith seg ''~''
          then (case home_dir e (drop 1 seg) of
                  None \<Rightarrow> None
                | Some h \<Rightarrow> Some (as_posix (h @ ''/'' @ join_slash segs)))
          else Some (as_posix p))"

section \<open>Reading the output of git\<close>

definition parse_name_status :: "string \<Rightarrow> string list" where
  "parse_name_status text =
     concat (map (\<lambda>line.
                    if strip line = [] then []
                    else
                      let parts = split_on (CHR 0x09) (rstrip_nl line);
                          status = hd parts
                      in if startswith status ''R''
                         then (if length parts < 3 then [] else [parts ! 2])
                         else (if length parts < 2 then [] else [parts ! 1]))
                 (splitlines text))"

definition is_under_prefixes :: "string \<Rightarrow> string list \<Rightarrow> bool" where
  "is_under_prefixes path_rel prefixes = (\<exists>pref \<in> set prefixes. startswith path_rel pref)"

section \<open>Loading the configuration and checking the repository\<close>

text \<open>
  \<open>parse_args\<close>: \<open>argparse\<close> returns the namespace or ends the process itself, after
  printing the help text or a usage message.
\<close>

definition parse_args :: "env \<Rightarrow> unit act" where
  "parse_args e =
     (case cli e of
        Cli_ok \<Rightarrow> ret ()
      | Cli_help text \<Rightarrow> bnd (print_out text) (\<lambda>_. sys_exit0)
      | Cli_error msg \<Rightarrow> bnd (print_err msg) (\<lambda>_. sys_exit2))"

definition load_config :: "env \<Rightarrow> string \<Rightarrow> config act" where
  "load_config e cfg_path = lift_opt (toml_load e cfg_path)"

definition resolve_repo_dir_from_config :: "env \<Rightarrow> config \<Rightarrow> string \<Rightarrow> string act" where
  "resolve_repo_dir_from_config e cfg cfg_path =
     (case cfg_repo_dir cfg of
        None \<Rightarrow>
          fatal ''ERROR: config must define 'repo_dir' (absolute or relative to the TOML).''
      | Some rd_raw \<Rightarrow>
          bnd (lift_opt (expanduser e rd_raw)) (\<lambda>rd_path.
            if is_absolute rd_path then lift_opt (resolve e rd_path)
            else lift_opt (resolve e (path_join (path_parent cfg_path) rd_path))))"

definition maybe_fetch :: "env \<Rightarrow> string \<Rightarrow> bool \<Rightarrow> unit act" where
  "maybe_fetch e repo_dir do_fetch =
     (if \<not> do_fetch then ret ()
      else bnd (run e [''git'', ''-C'', repo_dir, ''fetch'', ''--prune'']) (\<lambda>r.
             case r of
               Inl stderr \<Rightarrow> fatal (''ERROR: git fetch failed:'' @ NL @ stderr)
             | Inr _ \<Rightarrow> ret ()))"

definition ensure_target_exists :: "env \<Rightarrow> string \<Rightarrow> string \<Rightarrow> unit act" where
  "ensure_target_exists e repo_dir target =
     bnd (run e [''git'', ''-C'', repo_dir, ''rev-parse'', ''--verify'', target]) (\<lambda>r.
       case r of
         Inl stderr \<Rightarrow> fatal (''ERROR: target ref invalid: '' @ target @ NL @ stderr)
       | Inr _ \<Rightarrow> ret ())"

text \<open>\<open>ensure_selectors_are_ancestors\<close>: the loop over the commits, then the one over the ranges.\<close>

definition is_ancestor_cmd :: "string \<Rightarrow> string \<Rightarrow> string \<Rightarrow> string list" where
  "is_ancestor_cmd repo_dir c target =
     [''git'', ''-C'', repo_dir, ''merge-base'', ''--is-ancestor'', c, target]"

fun check_commits :: "env \<Rightarrow> string \<Rightarrow> string \<Rightarrow> string list \<Rightarrow> unit act" where
  "check_commits e repo_dir target [] = ret ()"
| "check_commits e repo_dir target (c # cs) =
     bnd (run e (is_ancestor_cmd repo_dir c target)) (\<lambda>r.
       case r of
         Inl _ \<Rightarrow> fatal (''ERROR: commit '' @ c @ '' is not an ancestor of '' @ target
                          @ ''. Cannot include without copying.'')
       | Inr _ \<Rightarrow> check_commits e repo_dir target cs)"

fun check_ranges :: "env \<Rightarrow> string \<Rightarrow> string \<Rightarrow> string list \<Rightarrow> unit act" where
  "check_ranges e repo_dir target [] = ret ()"
| "check_ranges e repo_dir target (rng # rngs) =
     (case split_dotdot rng of
        None \<Rightarrow> fatal (''ERROR: range must be A..B, got: '' @ rng)
      | Some (A, B) \<Rightarrow>
          bnd (run e (is_ancestor_cmd repo_dir B target)) (\<lambda>r.
            case r of
              Inl _ \<Rightarrow> fatal (''ERROR: range tip '' @ B @ '' is not an ancestor of '' @ target
                               @ ''. Cannot include without copying.'')
            | Inr _ \<Rightarrow> check_ranges e repo_dir target rngs))"

definition ensure_selectors_are_ancestors ::
  "env \<Rightarrow> string \<Rightarrow> string list \<Rightarrow> string list \<Rightarrow> string \<Rightarrow> unit act" where
  "ensure_selectors_are_ancestors e repo_dir commits ranges target =
     bnd (check_commits e repo_dir target commits) (\<lambda>_.
       check_ranges e repo_dir target ranges)"

section \<open>Collecting the candidate paths\<close>

text \<open>The paths of one git listing that lie under an allowed prefix.\<close>

definition under_prefixes :: "string list \<Rightarrow> string list \<Rightarrow> string set" where
  "under_prefixes prefixes rels = set (filter (\<lambda>rel. is_under_prefixes rel prefixes) rels)"

definition collect_paths_from_diff ::
  "env \<Rightarrow> string \<Rightarrow> string \<Rightarrow> string \<Rightarrow> string list \<Rightarrow> string set act" where
  "collect_paths_from_diff e repo_dir baseline target prefixes =
     bnd (run e [''git'', ''-C'', repo_dir, ''diff'', ''--name-status'',
                 ''--diff-filter=AMR'', baseline @ ''..'' @ target]) (\<lambda>r.
       case r of
         Inl stderr \<Rightarrow> fatal (''ERROR: diff baseline..target failed:'' @ NL @ stderr)
       | Inr stdout \<Rightarrow> ret (under_prefixes prefixes (parse_name_status stdout)))"

fun collect_paths_from_commits ::
  "env \<Rightarrow> string \<Rightarrow> string list \<Rightarrow> string list \<Rightarrow> string set \<Rightarrow> string set act" where
  "collect_paths_from_commits e repo_dir [] prefixes rel_paths = ret rel_paths"
| "collect_paths_from_commits e repo_dir (c # cs) prefixes rel_paths =
     bnd (run e [''git'', ''-C'', repo_dir, ''diff-tree'', ''--name-status'',
                 ''--first-parent'', ''-r'', c @ ''^!'', ''--diff-filter=AMR'']) (\<lambda>r.
       case r of
         Inl stderr \<Rightarrow> fatal (''ERROR: diff-tree for '' @ c @ '' failed:'' @ NL @ stderr)
       | Inr stdout \<Rightarrow>
           collect_paths_from_commits e repo_dir cs prefixes
             (rel_paths \<union> under_prefixes prefixes (parse_name_status stdout)))"

text \<open>
  In \<open>collect_paths_from_ranges\<close> the assignment \<open>A, B = rng.split("..", 1)\<close> stands
  outside the \<open>try\<close>: a range without two dots raises \<open>ValueError\<close> there.
\<close>

fun collect_paths_from_ranges ::
  "env \<Rightarrow> string \<Rightarrow> string list \<Rightarrow> string list \<Rightarrow> string set \<Rightarrow> string set act" where
  "collect_paths_from_ranges e repo_dir [] prefixes rel_paths = ret rel_paths"
| "collect_paths_from_ranges e repo_dir (rng # rngs) prefixes rel_paths =
     (case split_dotdot rng of
        None \<Rightarrow> uncaught
      | Some (A, B) \<Rightarrow>
          bnd (run e [''git'', ''-C'', repo_dir, ''diff'', ''--name-status'',
                      ''--diff-filter=AMR'', A @ ''..'' @ B]) (\<lambda>r.
            case r of
              Inl stderr \<Rightarrow> fatal (''ERROR: diff for range '' @ rng @ '' failed:'' @ NL @ stderr)
            | Inr stdout \<Rightarrow>
                collect_paths_from_ranges e repo_dir rngs prefixes
                  (rel_paths \<union> under_prefixes prefixes (parse_name_status stdout))))"

definition collect_paths_from_uncommitted :: "env \<Rightarrow> string \<Rightarrow> string list \<Rightarrow> string set act" where
  "collect_paths_from_uncommitted e repo_dir prefixes =
     bnd (run e [''git'', ''-C'', repo_dir, ''diff'', ''--cached'', ''--name-status'',
                 ''--diff-filter=AMR'']) (\<lambda>r1.
       case r1 of
         Inl stderr \<Rightarrow> fatal (''ERROR: diff --cached failed:'' @ NL @ stderr)
       | Inr staged \<Rightarrow>
     bnd (run e [''git'', ''-C'', repo_dir, ''diff'', ''--name-status'',
                 ''--diff-filter=AMR'']) (\<lambda>r2.
       case r2 of
         Inl stderr \<Rightarrow> fatal (''ERROR: diff (worktree) failed:'' @ NL @ stderr)
       | Inr unstaged \<Rightarrow>
     bnd (run e [''git'', ''-C'', repo_dir, ''ls-files'', ''--others'',
                 ''--exclude-standard'']) (\<lambda>r3.
       case r3 of
         Inl stderr \<Rightarrow> fatal (''ERROR: ls-files for untracked failed:'' @ NL @ stderr)
       | Inr untracked \<Rightarrow>
           ret (under_prefixes prefixes (parse_name_status staged)
                \<union> under_prefixes prefixes (parse_name_status unstaged)
                \<union> under_prefixes prefixes
                    (filter (\<lambda>rel. rel \<noteq> []) (map strip (splitlines untracked)))))))"

text \<open>
  \<open>normalize_and_apply_explicit_paths\<close>: the loop carries the pair
  \<open>(explicit_set, rel_paths)\<close>.
\<close>

fun normalize_and_apply_explicit_paths ::
  "env \<Rightarrow> string list \<Rightarrow> string \<Rightarrow> string list \<Rightarrow> string set \<times> string set
     \<Rightarrow> (string set \<times> string set) act" where
  "normalize_and_apply_explicit_paths e [] repo_dir prefixes acc = ret acc"
| "normalize_and_apply_explicit_paths e (pth # pths) repo_dir prefixes (explicit_set, rel_paths) =
     bnd (lift_opt (expanduser e pth)) (\<lambda>p_expanded.
     bnd (if is_absolute p_expanded then
            (case resolve e p_expanded of
               None \<Rightarrow> fatal (''ERROR: invalid explicit path: '' @ pth)
             | Some abs_norm \<Rightarrow>
                 (case relative_to abs_norm repo_dir of
                    None \<Rightarrow> fatal (''ERROR: explicit path not under repo_dir: '' @ pth)
                  | Some rel \<Rightarrow> ret rel))
          else ret (as_posix pth)) (\<lambda>rel_s.
       normalize_and_apply_explicit_paths e pths repo_dir prefixes
         (insert rel_s explicit_set,
          if is_under_prefixes rel_s prefixes then insert rel_s rel_paths else rel_paths)))"

section \<open>Classifying\<close>

text \<open>
  \<open>materialize_and_classify\<close>: the loop over \<open>sorted(rel_paths)\<close> carries
  \<open>(abs_spec, abs_m, missing_explicit, dropped_missing)\<close>.
\<close>

type_synonym classified = "string set \<times> string set \<times> string list \<times> string list"

fun classify_loop :: "env \<Rightarrow> string \<Rightarrow> string set \<Rightarrow> string list \<Rightarrow> classified \<Rightarrow> classified act" where
  "classify_loop e repo_dir explicit_set [] acc = ret acc"
| "classify_loop e repo_dir explicit_set (rel # rels) (abs_spec, abs_m, missing_explicit, dropped_missing) =
     bnd (lift_opt (resolve e (path_join repo_dir rel))) (\<lambda>abs_p.
       if \<not> fs_exists e abs_p then
         (if rel \<in> explicit_set
          then classify_loop e repo_dir explicit_set rels
                 (abs_spec, abs_m, missing_explicit @ [rel], dropped_missing)
          else classify_loop e repo_dir explicit_set rels
                 (abs_spec, abs_m, missing_explicit, dropped_missing @ [rel]))
       else if endswith rel ''.spec'' then
         classify_loop e repo_dir explicit_set rels
           (insert (path_join repo_dir rel) abs_spec, abs_m, missing_explicit, dropped_missing)
       else if endswith rel ''.m'' then
         classify_loop e repo_dir explicit_set rels
           (abs_spec, insert (path_join repo_dir rel) abs_m, missing_explicit, dropped_missing)
       else
         classify_loop e repo_dir explicit_set rels
           (abs_spec, abs_m, missing_explicit, dropped_missing))"

definition materialize_and_classify :: "env \<Rightarrow> string \<Rightarrow> string set \<Rightarrow> string set \<Rightarrow> classified act" where
  "materialize_and_classify e repo_dir rel_paths explicit_set =
     classify_loop e repo_dir explicit_set (sorted_list_of_set rel_paths) ({}, {}, [], [])"

section \<open>The baseline\<close>

definition QUOTE :: string where
  "QUOTE = [CHR 0x27]"

definition merge_base_cmd :: "string \<Rightarrow> string \<Rightarrow> string \<Rightarrow> string list" where
  "merge_base_cmd repo_dir baseline_ref target_ref =
     [''git'', ''-C'', repo_dir, ''merge-base'', baseline_ref, target_ref]"

definition resolve_effective_baseline :: "env \<Rightarrow> string \<Rightarrow> string \<Rightarrow> string \<Rightarrow> string \<Rightarrow> string act" where
  "resolve_effective_baseline e repo_dir baseline_ref target_ref mode =
     (let mode_lc = lower (if mode = [] then ''raw'' else mode)
      in if mode_lc = ''raw'' then ret baseline_ref
         else if mode_lc = ''merge-base'' then
           bnd (run e (merge_base_cmd repo_dir baseline_ref target_ref)) (\<lambda>r.
             case r of
               Inl stderr \<Rightarrow> fatal (''ERROR: git merge-base failed for '' @ baseline_ref @ '' and ''
                                    @ target_ref @ '':'' @ NL @ stderr)
             | Inr stdout \<Rightarrow> ret (strip stdout))
         else if mode_lc = ''fork-point'' then
           bnd (run e [''git'', ''-C'', repo_dir, ''merge-base'', ''--fork-point'',
                       baseline_ref, target_ref]) (\<lambda>r.
             case (case r of Inl _ \<Rightarrow> [] | Inr stdout \<Rightarrow> strip stdout) of
               [] \<Rightarrow>
                 bnd (run e (merge_base_cmd repo_dir baseline_ref target_ref)) (\<lambda>r'.
                   case r' of
                     Inl stderr \<Rightarrow> fatal (''ERROR: git merge-base fallback failed for ''
                                          @ baseline_ref @ '' and '' @ target_ref @ '':'' @ NL @ stderr)
                   | Inr stdout \<Rightarrow> ret (strip stdout))
             | c # cs \<Rightarrow> ret (c # cs))
         else fatal (''ERROR: unknown baseline_mode '' @ QUOTE @ mode @ QUOTE
                     @ ''. Use 'raw', 'merge-base', or 'fork-point'.''))"

section \<open>Writing\<close>

text \<open>
  \<open>write_atomic_lines\<close>: the lines go to a temporary file beside the output path, which
  then replaces the output path.  Either step can raise \<open>OSError\<close>.
\<close>

definition file_text :: "string list \<Rightarrow> string" where
  "file_text lines = concat (map (\<lambda>line. line @ NL) lines)"

definition tmp_path_of :: "string \<Rightarrow> string" where
  "tmp_path_of out_path = path_join (path_parent out_path) (''.'' @ path_name out_path @ ''.tmp'')"

definition write_atomic_lines :: "env \<Rightarrow> string \<Rightarrow> string list \<Rightarrow> string act" where
  "write_atomic_lines e out_path lines w =
     (let tmp_path = tmp_path_of out_path
      in if \<not> fs_can_create e tmp_path then (Inl Uncaught, w)
         else if \<not> fs_can_replace e tmp_path out_path
           then (Inl Uncaught, w\<lparr>files := (files w)(tmp_path \<mapsto> file_text lines)\<rparr>)
         else (Inr out_path,
               w\<lparr>files := ((files w)(tmp_path := None))(out_path \<mapsto> file_text lines)\<rparr>))"

section \<open>The entry point\<close>

definition get_or :: "'a option \<Rightarrow> 'a \<Rightarrow> 'a" where
  "get_or x d = (case x of None \<Rightarrow> d | Some v \<Rightarrow> v)"

text \<open>\<open>x or y\<close> for two optional strings: the first one that is neither absent nor empty.\<close>

definition or_else :: "string option \<Rightarrow> string option \<Rightarrow> string option" where
  "or_else x y = (case x of None \<Rightarrow> y | Some v \<Rightarrow> if v = [] then y else Some v)"

fun print_each :: "string list \<Rightarrow> unit act" where
  "print_each [] = ret ()"
| "print_each (msg # msgs) = bnd (print_err msg) (\<lambda>_. print_each msgs)"

text \<open>The options that \<open>main\<close> extracts from the configuration, with their defaults.\<close>

definition target_of :: "config \<Rightarrow> string" where
  "target_of cfg = get_or (cfg_target cfg) ''HEAD''"

definition prefixes_of :: "config \<Rightarrow> string list" where
  "prefixes_of cfg = get_or (opt_restrict_prefixes cfg) [''package/'']"

text \<open>
  The first part of \<open>main\<close>: the command line, then the configuration file and the
  repository directory.
\<close>

definition main_read_config :: "env \<Rightarrow> (config \<times> string) act" where
  "main_read_config e =
     bnd (lift_opt (resolve e (arg_config e))) (\<lambda>cfg_path.
       if \<not> fs_is_file e cfg_path then fatal (''ERROR: config not found: '' @ cfg_path)
       else
         bnd (load_config e cfg_path) (\<lambda>cfg.
         bnd (resolve_repo_dir_from_config e cfg cfg_path) (\<lambda>repo_dir.
           ret (cfg, repo_dir))))"

definition main_load :: "env \<Rightarrow> (config \<times> string) act" where
  "main_load e = bnd (parse_args e) (\<lambda>_. main_read_config e)"

text \<open>Basic repo checks and optional fetch.\<close>

definition main_checks :: "env \<Rightarrow> config \<Rightarrow> string \<Rightarrow> unit act" where
  "main_checks e cfg repo_dir =
     (if \<not> fs_is_dir e repo_dir then fatal (''ERROR: repo_dir does not exist: '' @ repo_dir)
      else
        bnd (maybe_fetch e repo_dir (get_or (cfg_fetch cfg) False)) (\<lambda>_.
        bnd (ensure_target_exists e repo_dir (target_of cfg)) (\<lambda>_.
          ensure_selectors_are_ancestors e repo_dir (sel_commits cfg) (sel_ranges cfg)
            (target_of cfg))))"

text \<open>Collect relative paths from diffs and selectors.\<close>

definition main_collect :: "env \<Rightarrow> config \<Rightarrow> string \<Rightarrow> string set act" where
  "main_collect e cfg repo_dir =
     bnd (resolve_effective_baseline e repo_dir (get_or (cfg_baseline cfg) ''origin/main'')
            (target_of cfg) (get_or (opt_baseline_mode cfg) ''raw'')) (\<lambda>effective_baseline.
     bnd (collect_paths_from_diff e repo_dir effective_baseline (target_of cfg)
            (prefixes_of cfg)) (\<lambda>from_diff.
     bnd (collect_paths_from_commits e repo_dir (sel_commits cfg) (prefixes_of cfg) {})
       (\<lambda>from_commits.
     bnd (collect_paths_from_ranges e repo_dir (sel_ranges cfg) (prefixes_of cfg) {})
       (\<lambda>from_ranges.
     bnd (if get_or (opt_include_uncommitted cfg) True
          then collect_paths_from_uncommitted e repo_dir (prefixes_of cfg)
          else ret {}) (\<lambda>from_uncommitted.
       ret (from_diff \<union> from_commits \<union> from_ranges \<union> from_uncommitted))))))"

text \<open>
  Apply explicit path selections, resolve and classify.
  \<open>set(Path(p).resolve().as_posix() for p in s)\<close> visits \<open>s\<close> in the order of the set.
\<close>

definition resolve_all :: "env \<Rightarrow> string set \<Rightarrow> string set act" where
  "resolve_all e s =
     (case those (map (resolve e) (hash_order e s)) of
        None \<Rightarrow> uncaught
      | Some ps \<Rightarrow> ret (set ps))"

definition main_classify :: "env \<Rightarrow> config \<Rightarrow> string \<Rightarrow> string set \<Rightarrow> (string set \<times> string set) act" where
  "main_classify e cfg repo_dir rel_paths =
     bnd (normalize_and_apply_explicit_paths e (sel_paths cfg) repo_dir (prefixes_of cfg) ({}, {}))
       (\<lambda>(explicit_set, rel_from_explicit).
     bnd (materialize_and_classify e repo_dir (rel_paths \<union> rel_from_explicit) explicit_set)
       (\<lambda>(abs_spec0, abs_m0, missing_explicit, dropped_missing).
     bnd (resolve_all e abs_spec0) (\<lambda>abs_spec.
     bnd (resolve_all e abs_m0) (\<lambda>abs_m.
       if missing_explicit \<noteq> [] then
         bnd (print_err ''ERROR: explicitly selected paths missing at target:'') (\<lambda>_.
         bnd (print_each (map (\<lambda>rel. ''  '' @ rel) missing_explicit)) (\<lambda>_.
           sys_exit2))
       else
         bnd (print_each (map (\<lambda>rel. ''WARNING: path missing at target and was dropped: '' @ rel)
                            dropped_missing)) (\<lambda>_.
           ret (abs_spec, abs_m))))))"

text \<open>Resolve include specs, determine the output path, build the output.\<close>

fun resolve_include_specs :: "env \<Rightarrow> string \<Rightarrow> string list \<Rightarrow> string list act" where
  "resolve_include_specs e repo_dir [] = ret []"
| "resolve_include_specs e repo_dir (sp # sps) =
     bnd (lift_opt (expanduser e sp)) (\<lambda>p.
     bnd (if \<not> is_absolute p then lift_opt (resolve e (path_join repo_dir p))
          else lift_opt (resolve e p)) (\<lambda>a.
     bnd (resolve_include_specs e repo_dir sps) (\<lambda>as.
       ret (a # as))))"

definition choose_out_path :: "env \<Rightarrow> config \<Rightarrow> string \<Rightarrow> string act" where
  "choose_out_path e cfg repo_dir =
     (case or_else (arg_output e) (or_else (cfg_output cfg) (opt_output cfg)) of
        None \<Rightarrow> lift_opt (resolve e (path_join repo_dir ''.magma_overlay.spec''))
      | Some chosen_output \<Rightarrow>
          if chosen_output = [] then lift_opt (resolve e (path_join repo_dir ''.magma_overlay.spec''))
          else
            bnd (lift_opt (expanduser e chosen_output)) (\<lambda>out_path.
              if \<not> is_absolute out_path then lift_opt (resolve e (path_join repo_dir out_path))
              else ret out_path))"

definition main_output ::
  "env \<Rightarrow> config \<Rightarrow> string \<Rightarrow> string set \<Rightarrow> string set \<Rightarrow> (string \<times> string list) act" where
  "main_output e cfg repo_dir abs_spec abs_m =
     bnd (resolve_include_specs e repo_dir
            (if cfg_include_specs cfg \<noteq> [] then cfg_include_specs cfg else opt_include_specs cfg))
       (\<lambda>include_specs_abs.
     bnd (choose_out_path e cfg repo_dir) (\<lambda>out_path.
       let output_format = get_or (opt_output_format cfg) ''curly'';
           fmt = lower (if output_format = [] then ''flat'' else output_format)
       in if fmt = ''flat'' then
            bnd (lift_opt (build_output_lines_flat (hash_order e) (cwd e) abs_spec abs_m
                             (get_or (opt_order cfg) ''spec-first'') (path_parent out_path)
                             include_specs_abs)) (\<lambda>lines.
              ret (out_path, lines))
          else if fmt = ''curly'' then
            bnd (lift_opt (build_output_lines_curly (hash_order e) (cwd e) abs_spec abs_m
                             (path_parent out_path) include_specs_abs)) (\<lambda>lines.
              ret (out_path, lines))
          else fatal (''ERROR: unknown output_format '' @ QUOTE @ output_format @ QUOTE
                      @ ''. Use 'flat' or 'curly'.'')))"

text \<open>The line that a successful run prints.\<close>

definition summary_line :: "nat \<Rightarrow> nat \<Rightarrow> string \<Rightarrow> string" where
  "summary_line n_spec n_m out_path =
     ''Wrote '' @ show_nat n_spec @ '' spec and '' @ show_nat n_m @ '' source entries to ''
     @ out_path"

definition main :: "env \<Rightarrow> unit act" where
  "main e =
     bnd (main_load e) (\<lambda>(cfg, repo_dir).
     bnd (main_checks e cfg repo_dir) (\<lambda>_.
     bnd (main_collect e cfg repo_dir) (\<lambda>rel_paths.
     bnd (main_classify e cfg repo_dir rel_paths) (\<lambda>(abs_spec, abs_m).
     bnd (main_output e cfg repo_dir abs_spec abs_m) (\<lambda>(out_path, lines).
     bnd (write_atomic_lines e out_path ([''{''] @ lines @ [''}''])) (\<lambda>written.
       print_out (summary_line (card abs_spec) (card abs_m) written)))))))"

text \<open>
  A run starts with nothing run and nothing printed, on the files that exist.  The exit
  status of the process: 0 when \<open>main\<close> returns or \<open>argparse\<close> exits after the help text,
  2 after \<open>sys.exit(2)\<close>, 1 after an exception that nothing catches.
\<close>

definition start :: "(string \<Rightarrow> string option) \<Rightarrow> world" where
  "start fs = \<lparr>cmds = [], err = [], out = [], files = fs\<rparr>"

definition exit_status :: "(stop + unit) \<times> world \<Rightarrow> nat" where
  "exit_status r =
     (case fst r of Inr _ \<Rightarrow> 0 | Inl SysExit2 \<Rightarrow> 2 | Inl SysExit0 \<Rightarrow> 0 | Inl Uncaught \<Rightarrow> 1)"

section \<open>Properties of actions\<close>

text \<open>
  An action is \<open>tame\<close> when it leaves the files and standard output alone, only adds to
  the diagnostic stream, adds at least one diagnostic whenever it ends in
  \<open>sys.exit(2)\<close>, and never exits with status 0.
\<close>

definition tame :: "'a act \<Rightarrow> bool" where
  "tame m =
     (\<forall>w. files (snd (m w)) = files w \<and> out (snd (m w)) = out w \<and>
          fst (m w) \<noteq> Inl SysExit0 \<and>
          (\<exists>es. err (snd (m w)) = err w @ es \<and> (fst (m w) = Inl SysExit2 \<longrightarrow> es \<noteq> [])))"

text \<open>
  The git commands that compute a diff or list the working tree, and the actions that
  run none of them.
\<close>

definition is_diff_cmd :: "string list \<Rightarrow> bool" where
  "is_diff_cmd cmd = (3 < length cmd \<and> cmd ! 3 \<in> {''diff'', ''diff-tree'', ''ls-files''})"

definition no_diff :: "'a act \<Rightarrow> bool" where
  "no_diff m = (\<forall>w. \<exists>cs. cmds (snd (m w)) = cmds w @ cs \<and> (\<forall>c \<in> set cs. \<not> is_diff_cmd c))"

text \<open>
  A run that gets through every stage before the write: the configuration \<open>cfg\<close> and the
  repository \<open>rd\<close>, the candidate paths \<open>rels\<close>, the classified sets \<open>S\<close> and \<open>M\<close>, the
  output path \<open>p\<close> and the lines \<open>ls\<close> of the formatter, and the world \<open>w5\<close> before the
  write.
\<close>

definition succeeds ::
  "env \<Rightarrow> world \<Rightarrow> config \<Rightarrow> string \<Rightarrow> string set \<Rightarrow> string set \<Rightarrow> string set \<Rightarrow> string
     \<Rightarrow> string list \<Rightarrow> world \<Rightarrow> bool" where
  "succeeds e w cfg rd rels S M p ls w5 =
     (\<exists>w2 w3 w4.
        main_load e w = (Inr (cfg, rd), w)
        \<and> main_checks e cfg rd w = (Inr (), w2)
        \<and> main_collect e cfg rd w2 = (Inr rels, w3)
        \<and> main_classify e cfg rd rels w3 = (Inr (S, M), w4)
        \<and> main_output e cfg rd S M w4 = (Inr (p, ls), w5))"

text \<open>
  The ways a run that starts in \<open>w\<close> can end, and what each leaves behind.  On success
  the output path holds the formatter's lines between two braces, the temporary file is
  gone, and the summary gives the sizes of the two classified sets and the output path.
\<close>

definition ends_ok :: "env \<Rightarrow> world \<Rightarrow> (stop + unit) \<times> world \<Rightarrow> bool" where
  "ends_ok e w r =
     (\<exists>cfg rd rels S M p ls w5.
        succeeds e w cfg rd rels S M p ls w5
        \<and> fs_can_create e (tmp_path_of p) \<and> fs_can_replace e (tmp_path_of p) p
        \<and> r = (Inr (),
               w5\<lparr>files := ((files w)(tmp_path_of p := None))
                               (p \<mapsto> file_text ([''{''] @ ls @ [''}''])),
                  out := out w @ [summary_line (card S) (card M) p]\<rparr>))"

definition ends_help :: "env \<Rightarrow> world \<Rightarrow> (stop + unit) \<times> world \<Rightarrow> bool" where
  "ends_help e w r =
     (\<exists>text. cli e = Cli_help text \<and> r = (Inl SysExit0, w\<lparr>out := out w @ [text]\<rparr>))"

definition ends_fatal :: "world \<Rightarrow> (stop + unit) \<times> world \<Rightarrow> bool" where
  "ends_fatal w r =
     (fst r = Inl SysExit2 \<and> files (snd r) = files w \<and> out (snd r) = out w \<and>
      (\<exists>es. es \<noteq> [] \<and> err (snd r) = err w @ es))"

definition ends_traceback :: "world \<Rightarrow> (stop + unit) \<times> world \<Rightarrow> bool" where
  "ends_traceback w r = (fst r = Inl Uncaught \<and> out (snd r) = out w)"

definition ends :: "env \<Rightarrow> world \<Rightarrow> (stop + unit) \<times> world \<Rightarrow> bool" where
  "ends e w r = (ends_ok e w r \<or> ends_help e w r \<or> ends_fatal w r \<or> ends_traceback w r)"

definition same :: "world \<Rightarrow> world \<Rightarrow> bool" where
  "same w0 w = (files w = files w0 \<and> out w = out w0 \<and> (\<exists>es. err w = err w0 @ es))"

section \<open>Example runs\<close>

text \<open>
  A configuration that names the repository \<open>/repo\<close> and leaves everything else to the
  defaults, and an environment without symbolic links: the configuration file is
  \<open>/work/overlay.toml\<close>, the repository \<open>/repo\<close> exists, every git command succeeds with
  the output \<open>g\<close> gives, and \<open>ex\<close> says which files exist.
\<close>

definition base_config :: config where
  "base_config =
     \<lparr>cfg_repo_dir = Some ''/repo'', cfg_baseline = None, cfg_target = None, cfg_fetch = None,
      sel_commits = [], sel_ranges = [], sel_paths = [],
      opt_restrict_prefixes = None, opt_order = None, opt_baseline_mode = None,
      opt_output_format = None, opt_include_uncommitted = None,
      cfg_include_specs = [], opt_include_specs = [], cfg_output = None, opt_output = None\<rparr>"

definition example_env :: "config \<Rightarrow> (string list \<Rightarrow> string + string) \<Rightarrow> (string \<Rightarrow> bool) \<Rightarrow> env" where
  "example_env cfg g ex =
     \<lparr>cli = Cli_ok, arg_config = ''/work/overlay.toml'', arg_output = None, cwd = ''/work'',
      home_dir = (\<lambda>u. None),
      fs_resolve = (\<lambda>p. Some (abspath ''/work'' p)),
      fs_is_file = (\<lambda>p. p = ''/work/overlay.toml''),
      fs_is_dir = (\<lambda>p. p = ''/repo''),
      fs_exists = ex,
      toml_load = (\<lambda>p. Some cfg),
      git = g,
      fs_can_create = (\<lambda>p. True),
      fs_can_replace = (\<lambda>p q. True),
      hash_order = sorted_list_of_set\<rparr>"

text \<open>A manifest left by an earlier run.\<close>

definition old_files :: "string \<Rightarrow> string option" where
  "old_files = [''/repo/.magma_overlay.spec'' \<mapsto> ''{'' @ NL @ ''}'' @ NL]"

text \<open>
  A run with the default prefix \<open>package/\<close> and the flat format.  The baseline diff lists
  \<open>package/a/x.m\<close> and \<open>package/y.spec\<close>.  Two paths are selected explicitly:
  \<open>other/missing.m\<close>, which does not exist, and \<open>package/../other/x.m\<close>, which does.
  The inclusion list names \<open>ghost.spec\<close>, which does not exist.
\<close>

definition demo_config :: config where
  "demo_config = base_config
     \<lparr>sel_paths := [''other/missing.m'', ''package/../other/x.m''],
      opt_output_format := Some ''flat'',
      opt_include_uncommitted := Some False,
      cfg_include_specs := [''ghost.spec'']\<rparr>"

definition demo_diff :: string where
  "demo_diff = ''A'' @ TAB @ ''package/a/x.m'' @ NL @ ''M'' @ TAB @ ''package/y.spec'' @ NL"

definition demo_git :: "string list \<Rightarrow> string + string" where
  "demo_git cmd =
     (if cmd = [''git'', ''-C'', ''/repo'', ''diff'', ''--name-status'', ''--diff-filter=AMR'',
                ''origin/main..HEAD'']
      then Inr demo_diff
      else Inr [])"

definition demo_exists :: "string \<Rightarrow> bool" where
  "demo_exists p = (p \<in> {''/repo/package/a/x.m'', ''/repo/package/y.spec'', ''/repo/other/x.m''})"

definition demo_env :: env where
  "demo_env = example_env demo_config demo_git demo_exists"

text \<open>The manifest that this run writes.\<close>

definition demo_manifest :: "string list" where
  "demo_manifest =
     [''{'', ''+ghost.spec'', ''+package/y.spec'', ''other/x.m'', ''package/a/x.m'', ''}'']"

text \<open>Two runs that end early: the configuration file is missing, or it is not valid TOML.\<close>

definition no_config_env :: env where
  "no_config_env = (example_env base_config demo_git demo_exists)\<lparr>fs_is_file := (\<lambda>p. False)\<rparr>"

definition bad_toml_env :: env where
  "bad_toml_env = (example_env base_config demo_git demo_exists)\<lparr>toml_load := (\<lambda>p. None)\<rparr>"

section \<open>Selector validation\<close>











section \<open>What the grouped format shows\<close>

text \<open>
  The directory and the base name under which a file appears in the grouped format, the
  entries of one directory (the source files, then the manifest files with a \<open>+\<close>, each
  group sorted by base name), and the directories other than the output directory itself.
\<close>

definition dir_of :: "string \<Rightarrow> string \<Rightarrow> string \<Rightarrow> string" where
  "dir_of wd out_dir p = path_parent (relpath_posix wd p out_dir)"

definition name_of :: "string \<Rightarrow> string \<Rightarrow> string \<Rightarrow> string" where
  "name_of wd out_dir p = path_name (relpath_posix wd p out_dir)"

definition entries_of ::
  "string \<Rightarrow> string \<Rightarrow> string \<Rightarrow> string set \<Rightarrow> string set \<Rightarrow> string \<Rightarrow> string list" where
  "entries_of indent wd out_dir abs_spec abs_m d =
     map (\<lambda>n. indent @ n)
       (sort (map (name_of wd out_dir) (sorted_list_of_set {p \<in> abs_m. dir_of wd out_dir p = d})))
     @ map (\<lambda>n. indent @ ''+'' @ n)
         (sorted_list_of_set (name_of wd out_dir ` {p \<in> abs_spec. dir_of wd out_dir p = d}))"

definition nonroot_dirs :: "string \<Rightarrow> string \<Rightarrow> string set \<Rightarrow> string set \<Rightarrow> string set" where
  "nonroot_dirs wd out_dir abs_spec abs_m = dir_of wd out_dir ` (abs_spec \<union> abs_m) - {''.''}"

text \<open>A relative directory in normal form: its segments are not empty and not \<open>.\<close>.\<close>

definition clean_dir :: "string \<Rightarrow> bool" where
  "clean_dir d = (\<forall>s \<in> set (split_on CHR ''/'' d). s \<noteq> [] \<and> s \<noteq> ''.'')"

section \<open>Explicit paths\<close>


section \<open>Facts about actions\<close>

lemmas act_defs = bnd_def ret_def uncaught_def sys_exit2_def sys_exit0_def print_err_def
  print_out_def fatal_def lift_opt_def run_def

lemma tame_ret: "tame (ret x)"
  by (simp add: tame_def ret_def)

lemma tame_uncaught: "tame uncaught"
  by (simp add: tame_def uncaught_def)

lemma tame_print_err: "tame (print_err msg)"
  by (simp add: tame_def print_err_def)

lemma tame_fatal: "tame (fatal msg)"
  by (simp add: tame_def act_defs)

lemma tame_run: "tame (run e cmd)"
  by (simp add: tame_def run_def)

lemma tame_lift_opt: "tame (lift_opt x)"
  by (cases x) (simp_all add: lift_opt_def tame_ret tame_uncaught)

lemma tame_bnd:
  assumes "tame m" and "\<And>x. tame (f x)"
  shows "tame (bnd m f)"
  unfolding tame_def
proof (intro allI)
  fix w
  obtain r w1 where mw: "m w = (r, w1)" by (cases "m w")
  from assms(1) have "files (snd (m w)) = files w \<and> out (snd (m w)) = out w \<and>
          fst (m w) \<noteq> Inl SysExit0 \<and>
          (\<exists>es. err (snd (m w)) = err w @ es \<and> (fst (m w) = Inl SysExit2 \<longrightarrow> es \<noteq> []))"
    unfolding tame_def by (rule spec)
  then obtain es where 1: "files w1 = files w" "out w1 = out w" "r \<noteq> Inl SysExit0"
     "err w1 = err w @ es" "r = Inl SysExit2 \<longrightarrow> es \<noteq> []"
    using mw by auto
  show "files (snd (bnd m f w)) = files w \<and> out (snd (bnd m f w)) = out w \<and>
          fst (bnd m f w) \<noteq> Inl SysExit0 \<and>
          (\<exists>es. err (snd (bnd m f w)) = err w @ es \<and> (fst (bnd m f w) = Inl SysExit2 \<longrightarrow> es \<noteq> []))"
  proof (cases r)
    case (Inl s)
    then show ?thesis using mw 1 by (simp add: bnd_def)
  next
    case (Inr x)
    from assms(2)[of x] have "files (snd (f x w1)) = files w1 \<and> out (snd (f x w1)) = out w1 \<and>
          fst (f x w1) \<noteq> Inl SysExit0 \<and>
          (\<exists>es. err (snd (f x w1)) = err w1 @ es \<and> (fst (f x w1) = Inl SysExit2 \<longrightarrow> es \<noteq> []))"
      unfolding tame_def by (rule spec)
    then obtain es' where 2: "files (snd (f x w1)) = files w1" "out (snd (f x w1)) = out w1"
      "fst (f x w1) \<noteq> Inl SysExit0"
      "err (snd (f x w1)) = err w1 @ es'" "fst (f x w1) = Inl SysExit2 \<longrightarrow> es' \<noteq> []"
      by auto
    have "bnd m f w = f x w1" using mw Inr by (simp add: bnd_def)
    then show ?thesis using 1 2 by simp
  qed
qed

lemmas tame_intros = tame_ret tame_uncaught tame_print_err tame_fatal tame_run tame_lift_opt tame_bnd

lemma tame_maybe_fetch: "tame (maybe_fetch e rd b)"
  by (auto simp: maybe_fetch_def intro!: tame_intros split: sum.split)

lemma tame_ensure_target_exists: "tame (ensure_target_exists e rd t)"
  by (auto simp: ensure_target_exists_def intro!: tame_intros split: sum.split)

lemma tame_check_commits: "tame (check_commits e rd t cs)"
  by (induction cs) (auto intro!: tame_intros split: sum.split)

lemma tame_check_ranges: "tame (check_ranges e rd t rs)"
  by (induction rs) (auto intro!: tame_intros split: sum.split option.split)

lemma tame_main_read_config: "tame (main_read_config e)"
  by (auto simp: main_read_config_def load_config_def resolve_repo_dir_from_config_def intro!: tame_intros split: option.split)

lemma tame_main_checks: "tame (main_checks e cfg rd)"
  by (auto simp: main_checks_def ensure_selectors_are_ancestors_def
      intro!: tame_intros tame_maybe_fetch tame_ensure_target_exists tame_check_commits tame_check_ranges)


lemma print_each_eq: "print_each ms w = (Inr (), w\<lparr>err := err w @ ms\<rparr>)"
  by (induction ms arbitrary: w) (simp_all add: bnd_def ret_def print_err_def)

lemma tame_print_each: "tame (print_each ms)"
  by (simp add: tame_def print_each_eq)

lemma tame_exit_after_print:
  "tame (bnd (print_err msg) (\<lambda>_. bnd (print_each ms) (\<lambda>_. sys_exit2)))"
  by (simp add: tame_def bnd_def print_err_def print_each_eq sys_exit2_def)

lemma tame_resolve_effective_baseline: "tame (resolve_effective_baseline e rd b t m)"
  by (auto simp: resolve_effective_baseline_def Let_def intro!: tame_intros split: sum.split list.split)

lemma tame_collect_paths_from_diff: "tame (collect_paths_from_diff e rd b t ps)"
  by (auto simp: collect_paths_from_diff_def intro!: tame_intros split: sum.split)

lemma tame_collect_paths_from_commits: "tame (collect_paths_from_commits e rd cs ps acc)"
  by (induction cs arbitrary: acc) (auto intro!: tame_intros split: sum.split)

lemma tame_collect_paths_from_ranges: "tame (collect_paths_from_ranges e rd rs ps acc)"
  by (induction rs arbitrary: acc) (auto intro!: tame_intros split: sum.split option.split)

lemma tame_collect_paths_from_uncommitted: "tame (collect_paths_from_uncommitted e rd ps)"
  by (auto simp: collect_paths_from_uncommitted_def intro!: tame_intros split: sum.split)

lemma tame_main_collect: "tame (main_collect e cfg rd)"
  by (auto simp: main_collect_def intro!: tame_intros tame_resolve_effective_baseline
      tame_collect_paths_from_diff tame_collect_paths_from_commits tame_collect_paths_from_ranges
      tame_collect_paths_from_uncommitted)

lemma tame_normalize_and_apply_explicit_paths:
  "tame (normalize_and_apply_explicit_paths e pths rd ps acc)"
proof (induction pths arbitrary: acc)
  case Nil
  show ?case by (simp add: tame_ret)
next
  case (Cons pth pths)
  obtain es rp where acc: "acc = (es, rp)" by (cases acc)
  show ?case unfolding acc
    by (auto intro!: tame_intros Cons.IH split: option.split)
qed

lemma tame_classify_loop: "tame (classify_loop e rd ex rels acc)"
proof (induction rels arbitrary: acc)
  case Nil
  show ?case by (simp add: tame_ret)
next
  case (Cons rel rels)
  obtain a b c d where acc: "acc = (a, b, c, d)" by (cases acc)
  show ?case unfolding acc
    by (auto intro!: tame_intros Cons.IH)
qed

lemma tame_resolve_all: "tame (resolve_all e s)"
  by (auto simp: resolve_all_def intro!: tame_intros split: option.split)

lemma tame_main_classify: "tame (main_classify e cfg rd rels)"
  by (auto simp: main_classify_def materialize_and_classify_def
      intro!: tame_intros tame_normalize_and_apply_explicit_paths tame_classify_loop
        tame_resolve_all tame_exit_after_print tame_print_each)

lemma tame_resolve_include_specs: "tame (resolve_include_specs e rd sps)"
  by (induction sps) (auto intro!: tame_intros)

lemma tame_choose_out_path: "tame (choose_out_path e cfg rd)"
  by (auto simp: choose_out_path_def intro!: tame_intros split: option.split)

lemma tame_main_output: "tame (main_output e cfg rd s m)"
  by (auto simp: main_output_def Let_def
      intro!: tame_intros tame_resolve_include_specs tame_choose_out_path)



lemma same_refl: "same w w"
  by (simp add: same_def)

lemma tame_outcome:
  assumes "tame m" and "same w0 w" and "m w = (r, w1)"
  shows "same w0 w1" and "r \<noteq> Inl SysExit0"
    and "r = Inl SysExit2 \<Longrightarrow> \<exists>es. es \<noteq> [] \<and> err w1 = err w0 @ es"
proof -
  from assms(1) have "files (snd (m w)) = files w \<and> out (snd (m w)) = out w \<and>
          fst (m w) \<noteq> Inl SysExit0 \<and>
          (\<exists>es. err (snd (m w)) = err w @ es \<and> (fst (m w) = Inl SysExit2 \<longrightarrow> es \<noteq> []))"
    unfolding tame_def by (rule spec)
  then obtain es where t: "files w1 = files w" "out w1 = out w" "r \<noteq> Inl SysExit0"
    "err w1 = err w @ es" "r = Inl SysExit2 \<longrightarrow> es \<noteq> []"
    using assms(3) by auto
  from assms(2) obtain es0 where s0: "files w = files w0" "out w = out w0" "err w = err w0 @ es0"
    unfolding same_def by blast
  show "same w0 w1" unfolding same_def using t s0 by simp
  show "r \<noteq> Inl SysExit0" by (rule t(3))
  show "\<exists>es. es \<noteq> [] \<and> err w1 = err w0 @ es" if "r = Inl SysExit2"
  proof (rule exI[of _ "es0 @ es"])
    show "es0 @ es \<noteq> [] \<and> err w1 = err w0 @ es0 @ es" using that t s0 by simp
  qed
qed

lemma stopped_ends:
  assumes "same w0 w1" and "s \<noteq> SysExit0"
    and "s = SysExit2 \<Longrightarrow> \<exists>es. es \<noteq> [] \<and> err w1 = err w0 @ es"
  shows "ends e w0 (Inl s, w1)"
proof (cases s)
  case SysExit2
  from assms(1) have "files w1 = files w0" "out w1 = out w0" by (simp_all add: same_def)
  then have "ends_fatal w0 (Inl SysExit2, w1)"
    unfolding ends_fatal_def using assms(3)[OF SysExit2] by simp
  then show ?thesis using SysExit2 by (simp add: ends_def)
next
  case SysExit0
  then show ?thesis using assms(2) by simp
next
  case Uncaught
  from assms(1) have "out w1 = out w0" by (simp add: same_def)
  then show ?thesis using Uncaught by (simp add: ends_def ends_traceback_def)
qed

lemma stage_ends:
  assumes "tame m" and "same w0 w"
    and go: "\<And>x w1. m w = (Inr x, w1) \<Longrightarrow> same w0 w1 \<Longrightarrow> ends e w0 (f x w1)"
  shows "ends e w0 (bnd m f w)"
proof -
  obtain r w1 where mw: "m w = (r, w1)" by (cases "m w")
  note t = tame_outcome[OF assms(1) assms(2) mw]
  show ?thesis
  proof (cases r)
    case (Inl s)
    have b: "bnd m f w = (Inl s, w1)" using mw Inl by (simp add: bnd_def)
    have "ends e w0 (Inl s, w1)"
      by (rule stopped_ends[OF t(1)]) (use t(2) t(3) Inl in simp_all)
    then show ?thesis using b by simp
  next
    case (Inr x)
    have "bnd m f w = f x w1" using mw Inr by (simp add: bnd_def)
    then show ?thesis using go[OF mw[unfolded Inr] t(1)] by simp
  qed
qed

text \<open>The first stage: the command line, then the configuration.\<close>

lemma main_load_cases:
  "(cli e = Cli_ok \<and> main_load e w = main_read_config e w)
   \<or> (\<exists>text. cli e = Cli_help text \<and> main_load e w = (Inl SysExit0, w\<lparr>out := out w @ [text]\<rparr>))
   \<or> (\<exists>msg. cli e = Cli_error msg \<and> main_load e w = (Inl SysExit2, w\<lparr>err := err w @ [msg]\<rparr>))"
  by (cases "cli e") (simp_all add: main_load_def parse_args_def act_defs)

lemma main_read_config_unchanged:
  "fst (main_read_config e w) = Inr x \<Longrightarrow> snd (main_read_config e w) = w"
  by (auto simp: main_read_config_def load_config_def resolve_repo_dir_from_config_def act_defs
      split: option.splits if_splits)

lemma main_load_unchanged: "fst (main_load e w) = Inr x \<Longrightarrow> snd (main_load e w) = w"
  using main_load_cases[of e w] main_read_config_unchanged[of e w x] by auto

lemma main_load_eq: "fst (main_load e w) = Inr (cfg, rd) \<Longrightarrow> main_load e w = (Inr (cfg, rd), w)"
  using main_load_unchanged[of e w "(cfg, rd)"] by (cases "main_load e w") simp

lemma main_load_Inr_cli: "fst (main_load e w) = Inr x \<Longrightarrow> cli e = Cli_ok"
  using main_load_cases[of e w] by auto

lemma main_load_ends:
  assumes go: "\<And>cfg rd. main_load e w = (Inr (cfg, rd), w) \<Longrightarrow> ends e w (f (cfg, rd) w)"
  shows "ends e w (bnd (main_load e) f w)"
proof -
  obtain r w1 where mw: "main_load e w = (r, w1)" by (cases "main_load e w")
  show ?thesis
  proof (cases r)
    case (Inr x)
    obtain cfg rd where x: "x = (cfg, rd)" by (cases x)
    have eq: "main_load e w = (Inr (cfg, rd), w)"
      by (rule main_load_eq) (simp add: mw Inr x)
    then have "bnd (main_load e) f w = f (cfg, rd) w" by (simp add: bnd_def)
    then show ?thesis using go[OF eq] by simp
  next
    case (Inl s)
    have b: "bnd (main_load e) f w = (Inl s, w1)" using mw Inl by (simp add: bnd_def)
    from main_load_cases[of e w] consider
        (ok) "cli e = Cli_ok" "main_load e w = main_read_config e w"
      | (hlp) t where "cli e = Cli_help t"
          "main_load e w = (Inl SysExit0, w\<lparr>out := out w @ [t]\<rparr>)"
      | (usage) msg where "cli e = Cli_error msg"
          "main_load e w = (Inl SysExit2, w\<lparr>err := err w @ [msg]\<rparr>)"
      by blast
    then have "ends e w (Inl s, w1)"
    proof cases
      case ok
      then have m: "main_read_config e w = (Inl s, w1)" using mw Inl by simp
      note t = tame_outcome[OF tame_main_read_config same_refl m]
      show ?thesis by (rule stopped_ends[OF t(1)]) (use t(2) t(3) in simp_all)
    next
      case hlp
      then have "ends_help e w (Inl s, w1)" using mw Inl by (simp add: ends_help_def)
      then show ?thesis by (simp add: ends_def)
    next
      case usage
      then have "ends_fatal w (Inl s, w1)" using mw Inl by (simp add: ends_fatal_def)
      then show ?thesis by (simp add: ends_def)
    qed
    then show ?thesis using b by simp
  qed
qed

lemma write_then_print:
  assumes "succeeds e w0 cfg rd rels S M p ls w" and "same w0 w"
  shows "ends e w0 (bnd (write_atomic_lines e p ([''{''] @ ls @ [''}'']))
                      (\<lambda>written. print_out (summary_line (card S) (card M) written)) w)"
proof -
  from assms(2) have o: "out w = out w0" and f: "files w = files w0" by (simp_all add: same_def)
  show ?thesis
  proof (cases "fs_can_create e (tmp_path_of p) \<and> fs_can_replace e (tmp_path_of p) p")
    case True
    then have "bnd (write_atomic_lines e p ([''{''] @ ls @ [''}'']))
                      (\<lambda>written. print_out (summary_line (card S) (card M) written)) w
       = (Inr (), w\<lparr>files := ((files w0)(tmp_path_of p := None))(p \<mapsto> file_text ([''{''] @ ls @ [''}''])),
                    out := out w0 @ [summary_line (card S) (card M) p]\<rparr>)"
      by (simp add: bnd_def write_atomic_lines_def Let_def print_out_def o f)
    with assms(1) True have "ends_ok e w0 (bnd (write_atomic_lines e p ([''{''] @ ls @ [''}'']))
                      (\<lambda>written. print_out (summary_line (card S) (card M) written)) w)"
      unfolding ends_ok_def by blast
    then show ?thesis by (simp add: ends_def)
  next
    case False
    then have "ends_traceback w0 (bnd (write_atomic_lines e p ([''{''] @ ls @ [''}'']))
                      (\<lambda>written. print_out (summary_line (card S) (card M) written)) w)"
      using o by (auto simp: ends_traceback_def bnd_def write_atomic_lines_def Let_def)
    then show ?thesis by (simp add: ends_def)
  qed
qed

lemma main_ends: "ends e w (main e w)"
  unfolding main_def
proof (rule main_load_ends, simp only: prod.case)
  fix cfg rd
  assume l: "main_load e w = (Inr (cfg, rd), w)"
  show "ends e w (bnd (main_checks e cfg rd) (\<lambda>_.
          bnd (main_collect e cfg rd) (\<lambda>rel_paths.
          bnd (main_classify e cfg rd rel_paths) (\<lambda>(abs_spec, abs_m).
          bnd (main_output e cfg rd abs_spec abs_m) (\<lambda>(out_path, lines).
          bnd (write_atomic_lines e out_path ([''{''] @ lines @ [''}''])) (\<lambda>written.
            print_out (summary_line (card abs_spec) (card abs_m) written)))))) w)"
  proof (rule stage_ends[OF tame_main_checks same_refl])
    fix u w2
    assume c: "main_checks e cfg rd w = (Inr u, w2)" and s2: "same w w2"
    show "ends e w (bnd (main_collect e cfg rd) (\<lambda>rel_paths.
          bnd (main_classify e cfg rd rel_paths) (\<lambda>(abs_spec, abs_m).
          bnd (main_output e cfg rd abs_spec abs_m) (\<lambda>(out_path, lines).
          bnd (write_atomic_lines e out_path ([''{''] @ lines @ [''}''])) (\<lambda>written.
            print_out (summary_line (card abs_spec) (card abs_m) written))))) w2)"
    proof (rule stage_ends[OF tame_main_collect s2])
      fix rels w3
      assume r: "main_collect e cfg rd w2 = (Inr rels, w3)" and s3: "same w w3"
      show "ends e w (bnd (main_classify e cfg rd rels) (\<lambda>(abs_spec, abs_m).
          bnd (main_output e cfg rd abs_spec abs_m) (\<lambda>(out_path, lines).
          bnd (write_atomic_lines e out_path ([''{''] @ lines @ [''}''])) (\<lambda>written.
            print_out (summary_line (card abs_spec) (card abs_m) written)))) w3)"
      proof (rule stage_ends[OF tame_main_classify s3])
        fix sm w4
        assume k: "main_classify e cfg rd rels w3 = (Inr sm, w4)" and s4: "same w w4"
        obtain S M where sm: "sm = (S, M)" by (cases sm)
        have "ends e w (bnd (main_output e cfg rd S M) (\<lambda>(out_path, lines).
          bnd (write_atomic_lines e out_path ([''{''] @ lines @ [''}''])) (\<lambda>written.
            print_out (summary_line (card S) (card M) written))) w4)"
        proof (rule stage_ends[OF tame_main_output s4])
          fix pl w5
          assume ou: "main_output e cfg rd S M w4 = (Inr pl, w5)" and s5: "same w w5"
          obtain p ls where pl: "pl = (p, ls)" by (cases pl)
          have "succeeds e w cfg rd rels S M p ls w5"
            unfolding succeeds_def using l c r k ou sm pl by auto
          from write_then_print[OF this s5]
          show "ends e w ((case pl of (out_path, lines) \<Rightarrow>
                  bnd (write_atomic_lines e out_path ([''{''] @ lines @ [''}''])) (\<lambda>written.
                    print_out (summary_line (card S) (card M) written))) w5)"
            by (simp add: pl)
        qed
        then show "ends e w ((case sm of (abs_spec, abs_m) \<Rightarrow>
          bnd (main_output e cfg rd abs_spec abs_m) (\<lambda>(out_path, lines).
          bnd (write_atomic_lines e out_path ([''{''] @ lines @ [''}''])) (\<lambda>written.
            print_out (summary_line (card abs_spec) (card abs_m) written)))) w4)"
          by (simp add: sm)
      qed
    qed
  qed
qed

lemma exit_status_simps:
  "exit_status (Inr u, w) = 0" "exit_status (Inl SysExit2, w) = 2"
  "exit_status (Inl SysExit0, w) = 0" "exit_status (Inl Uncaught, w) = 1"
  by (simp_all add: exit_status_def)

lemmas path_defs = as_posix_def from_parts_def path_parts_def is_absolute_def startswith_def
  endswith_def path_join_def path_parent_def path_name_def normpath_def abspath_def os_join_def


section \<open>The example run, stage by stage\<close>

lemma example_env_sel:
  "cli (example_env cfg g ex) = Cli_ok"
  "arg_config (example_env cfg g ex) = ''/work/overlay.toml''"
  "arg_output (example_env cfg g ex) = None"
  "cwd (example_env cfg g ex) = ''/work''"
  "home_dir (example_env cfg g ex) u = None"
  "fs_resolve (example_env cfg g ex) p = Some (abspath ''/work'' p)"
  "fs_is_file (example_env cfg g ex) p = (p = ''/work/overlay.toml'')"
  "fs_is_dir (example_env cfg g ex) p = (p = ''/repo'')"
  "fs_exists (example_env cfg g ex) = ex"
  "toml_load (example_env cfg g ex) p = Some cfg"
  "git (example_env cfg g ex) = g"
  "fs_can_create (example_env cfg g ex) p = True"
  "fs_can_replace (example_env cfg g ex) p q = True"
  "hash_order (example_env cfg g ex) = sorted_list_of_set"
  by (simp_all add: example_env_def)

lemma demo_config_sel:
  "cfg_repo_dir demo_config = Some ''/repo''"
  "cfg_baseline demo_config = None"
  "cfg_target demo_config = None"
  "cfg_fetch demo_config = None"
  "sel_commits demo_config = []"
  "sel_ranges demo_config = []"
  "sel_paths demo_config = [''other/missing.m'', ''package/../other/x.m'']"
  "opt_restrict_prefixes demo_config = None"
  "opt_order demo_config = None"
  "opt_baseline_mode demo_config = None"
  "opt_output_format demo_config = Some ''flat''"
  "opt_include_uncommitted demo_config = Some False"
  "cfg_include_specs demo_config = [''ghost.spec'']"
  "opt_include_specs demo_config = []"
  "cfg_output demo_config = None"
  "opt_output demo_config = None"
  by (simp_all add: demo_config_def base_config_def)

lemma lower_raw: "lower ''raw'' = ''raw''" and lower_flat: "lower ''flat'' = ''flat''"
  by (simp_all add: lower_char_def)

lemma baseline_raw: "resolve_effective_baseline e rd b t ''raw'' = ret b"
proof -
  have "lower (if ''raw'' = [] then ''raw'' else ''raw'') = ''raw''"
    using lower_raw by simp
  then show ?thesis
    by (simp only: resolve_effective_baseline_def Let_def) simp
qed

lemma example_load:
  "cfg_repo_dir cfg = Some ''/repo'' \<Longrightarrow> main_load (example_env cfg g ex) w = (Inr (cfg, ''/repo''), w)"
  by (simp add: main_load_def parse_args_def main_read_config_def load_config_def
      resolve_repo_dir_from_config_def example_env_sel resolve_def expanduser_def act_defs path_defs)

lemma demo_checks:
  "main_checks demo_env demo_config ''/repo'' w
     = (Inr (), w\<lparr>cmds := cmds w @ [[''git'', ''-C'', ''/repo'', ''rev-parse'', ''--verify'', ''HEAD'']]\<rparr>)"
  by (simp add: main_checks_def maybe_fetch_def ensure_target_exists_def
      ensure_selectors_are_ancestors_def demo_env_def example_env_sel demo_config_sel
      demo_git_def get_or_def target_of_def act_defs)

lemma demo_parse:
  "under_prefixes [''package/''] (parse_name_status demo_diff)
     = {''package/a/x.m'', ''package/y.spec''}"
  by (simp add: under_prefixes_def is_under_prefixes_def demo_diff_def parse_name_status_def splitlines_def TAB_def NL_def is_linebreak_def strip_def
      is_space_def rstrip_nl_def startswith_def)

lemma demo_collect:
  "main_collect demo_env demo_config ''/repo'' w
     = (Inr {''package/a/x.m'', ''package/y.spec''},
        w\<lparr>cmds := cmds w @ [[''git'', ''-C'', ''/repo'', ''diff'', ''--name-status'',
                               ''--diff-filter=AMR'', ''origin/main..HEAD'']]\<rparr>)"
  by (simp add: main_collect_def baseline_raw collect_paths_from_diff_def
      demo_env_def example_env_sel demo_config_sel demo_git_def get_or_def
      target_of_def prefixes_of_def act_defs demo_parse)



lemma demo_env_sel:
  "cwd demo_env = ''/work''"
  "home_dir demo_env u = None"
  "fs_exists demo_env = demo_exists"
  "git demo_env = demo_git"
  "hash_order demo_env = sorted_list_of_set"
  "fs_can_create demo_env p = True"
  "fs_can_replace demo_env p q = True"
  by (simp_all add: demo_env_def example_env_sel)

lemma demo_join:
  "path_join ''/repo'' ''package/a/x.m'' = ''/repo/package/a/x.m''"
  "path_join ''/repo'' ''package/y.spec'' = ''/repo/package/y.spec''"
  "path_join ''/repo'' ''package/../other/x.m'' = ''/repo/package/../other/x.m''"
  "path_join ''/repo'' ''ghost.spec'' = ''/repo/ghost.spec''"
  "path_join ''/repo'' ''.magma_overlay.spec'' = ''/repo/.magma_overlay.spec''"
  by (simp_all add: path_defs)

lemma demo_resolve:
  "resolve demo_env ''/repo/package/a/x.m'' = Some ''/repo/package/a/x.m''"
  "resolve demo_env ''/repo/package/y.spec'' = Some ''/repo/package/y.spec''"
  "resolve demo_env ''/repo/package/../other/x.m'' = Some ''/repo/other/x.m''"
  "resolve demo_env ''/repo/ghost.spec'' = Some ''/repo/ghost.spec''"
  "resolve demo_env ''/repo/.magma_overlay.spec'' = Some ''/repo/.magma_overlay.spec''"
  by (simp_all add: demo_env_def resolve_def example_env_sel path_defs)

lemma demo_expanduser:
  "expanduser demo_env ''other/missing.m'' = Some ''other/missing.m''"
  "expanduser demo_env ''package/../other/x.m'' = Some ''package/../other/x.m''"
  "expanduser demo_env ''ghost.spec'' = Some ''ghost.spec''"
  by (simp_all add: expanduser_def path_defs)

lemma demo_explicit:
  "normalize_and_apply_explicit_paths demo_env [''other/missing.m'', ''package/../other/x.m'']
     ''/repo'' [''package/''] ({}, {}) w
   = (Inr ({''other/missing.m'', ''package/../other/x.m''}, {''package/../other/x.m''}), w)"
  by (simp add: demo_expanduser act_defs path_defs is_under_prefixes_def insert_commute)


lemma demo_sorted:
  "sorted_list_of_set ({''package/a/x.m'', ''package/y.spec''} \<union> {''package/../other/x.m''})
     = [''package/../other/x.m'', ''package/a/x.m'', ''package/y.spec'']"
  using sorted_list_of_set_sort_remdups[of "[''package/a/x.m'', ''package/y.spec'', ''package/../other/x.m'']"]
  by simp

lemma demo_classify_loop:
  "classify_loop demo_env ''/repo'' {''other/missing.m'', ''package/../other/x.m''}
     [''package/../other/x.m'', ''package/a/x.m'', ''package/y.spec''] ({}, {}, [], []) w
   = (Inr ({''/repo/package/y.spec''}, {''/repo/package/a/x.m'', ''/repo/package/../other/x.m''}, [], []), w)"
  by (simp add: demo_resolve demo_join act_defs demo_env_sel demo_exists_def endswith_def)

lemma demo_resolve_all:
  "resolve_all demo_env {''/repo/package/y.spec''} w = (Inr {''/repo/package/y.spec''}, w)"
  "resolve_all demo_env {''/repo/package/a/x.m'', ''/repo/package/../other/x.m''} w
     = (Inr {''/repo/other/x.m'', ''/repo/package/a/x.m''}, w)"
  using sorted_list_of_set_sort_remdups[of "[''/repo/package/a/x.m'', ''/repo/package/../other/x.m'']"]
  by (simp_all add: resolve_all_def demo_env_sel demo_resolve act_defs)

lemmas eval_only = bnd_def ret_def prod.case sum.case option.case if_True if_False simp_thms
  list.map print_each.simps get_or_def

lemma demo_classify:
  "main_classify demo_env demo_config ''/repo'' {''package/a/x.m'', ''package/y.spec''} w
     = (Inr ({''/repo/package/y.spec''}, {''/repo/other/x.m'', ''/repo/package/a/x.m''}), w)"
  by (simp only: main_classify_def demo_config_sel prefixes_of_def demo_explicit
      materialize_and_classify_def demo_sorted demo_classify_loop demo_resolve_all eval_only)


lemmas rel_defs = relpath_posix_def os_relpath_def

lemma demo_rel:
  "relpath_posix ''/work'' ''/repo/ghost.spec'' ''/repo'' = ''ghost.spec''"
  "relpath_posix ''/work'' ''/repo/package/y.spec'' ''/repo'' = ''package/y.spec''"
  "relpath_posix ''/work'' ''/repo/other/x.m'' ''/repo'' = ''other/x.m''"
  "relpath_posix ''/work'' ''/repo/package/a/x.m'' ''/repo'' = ''package/a/x.m''"
  by (simp_all add: rel_defs path_defs)

lemma demo_flat:
  "build_output_lines_flat sorted_list_of_set ''/work'' {''/repo/package/y.spec''}
     {''/repo/other/x.m'', ''/repo/package/a/x.m''} ''spec-first'' ''/repo'' [''/repo/ghost.spec'']
   = Some [''+ghost.spec'', ''+package/y.spec'', ''other/x.m'', ''package/a/x.m'']"
  using sorted_list_of_set_sort_remdups[of "[''/repo/other/x.m'', ''/repo/package/a/x.m'']"]
  by (simp add: build_output_lines_flat_def flat_lines_def demo_rel)

lemma demo_include:
  "resolve_include_specs demo_env ''/repo'' [''ghost.spec''] w = (Inr [''/repo/ghost.spec''], w)"
  by (simp add: demo_expanduser demo_join demo_resolve act_defs is_absolute_def startswith_def)

lemma demo_out_path:
  "choose_out_path demo_env demo_config ''/repo'' w = (Inr ''/repo/.magma_overlay.spec'', w)"
  by (simp add: choose_out_path_def or_else_def demo_env_def example_env_sel demo_config_sel
      demo_join demo_resolve[unfolded demo_env_def] act_defs)

lemma demo_parent: "path_parent ''/repo/.magma_overlay.spec'' = ''/repo''"
  by (simp add: path_defs)


lemma demo_output:
  "main_output demo_env demo_config ''/repo'' {''/repo/package/y.spec''}
     {''/repo/other/x.m'', ''/repo/package/a/x.m''} w
   = (Inr (''/repo/.magma_overlay.spec'',
           [''+ghost.spec'', ''+package/y.spec'', ''other/x.m'', ''package/a/x.m'']), w)"
  by (simp only: main_output_def demo_config_sel demo_include demo_out_path lower_flat
      demo_env_sel demo_parent demo_flat eval_only lift_opt_def Let_def list.simps)

lemma demo_write:
  "write_atomic_lines demo_env ''/repo/.magma_overlay.spec'' ls w
     = (Inr ''/repo/.magma_overlay.spec'',
        w\<lparr>files := ((files w)(''/repo/..magma_overlay.spec.tmp'' := None))
                       (''/repo/.magma_overlay.spec'' \<mapsto> file_text ls)\<rparr>)"
  by (simp add: write_atomic_lines_def tmp_path_of_def demo_env_sel path_defs)

lemma demo_card:
  "card {''/repo/package/y.spec''} = 1" "card {''/repo/other/x.m'', ''/repo/package/a/x.m''} = 2"
  by simp_all

lemma demo_summary:
  "summary_line (Suc 0) 2 ''/repo/.magma_overlay.spec''
     = ''Wrote 1 spec and 2 source entries to /repo/.magma_overlay.spec''"
  by (simp add: summary_line_def digit_char_def)

lemma demo_load: "main_load demo_env w = (Inr (demo_config, ''/repo''), w)"
  unfolding demo_env_def by (rule example_load) (simp add: demo_config_sel)

lemma demo_run:
  "main demo_env w =
     (Inr (),
      w\<lparr>cmds := cmds w @ [[''git'', ''-C'', ''/repo'', ''rev-parse'', ''--verify'', ''HEAD''],
                           [''git'', ''-C'', ''/repo'', ''diff'', ''--name-status'',
                            ''--diff-filter=AMR'', ''origin/main..HEAD'']],
        files := ((files w)(''/repo/..magma_overlay.spec.tmp'' := None))
                   (''/repo/.magma_overlay.spec'' \<mapsto>
                      file_text demo_manifest),
        out := out w @ [''Wrote 1 spec and 2 source entries to /repo/.magma_overlay.spec'']\<rparr>)"
  by (simp add: main_def demo_load demo_checks demo_collect
      demo_classify demo_output demo_write demo_card demo_summary bnd_def print_out_def
      demo_manifest_def)


lemma demo_missing:
  "resolve demo_env (path_join ''/repo'' ''other/missing.m'') = Some ''/repo/other/missing.m''"
  by (simp add: demo_env_def resolve_def example_env_sel path_defs)

text \<open>
  Claim C1, at a failing input.  The explicitly selected path \<open>other/missing.m\<close> lies
  under no allowed prefix and does not exist, yet the run ends with status 0, prints no
  diagnostic and writes the manifest: a path that fails the prefix filter never reaches
  the loop of \<open>materialize_and_classify\<close>, so its existence is not checked.
\<close>

theorem missing_explicit_path_unnoticed:
  "''other/missing.m'' \<in> set (sel_paths demo_config)
   \<and> \<not> is_under_prefixes ''other/missing.m'' (prefixes_of demo_config)
   \<and> resolve demo_env (path_join ''/repo'' ''other/missing.m'') = Some ''/repo/other/missing.m''
   \<and> \<not> fs_exists demo_env ''/repo/other/missing.m''
   \<and> exit_status (main demo_env (start old_files)) = 0
   \<and> err (snd (main demo_env (start old_files))) = []
   \<and> files (snd (main demo_env (start old_files))) ''/repo/.magma_overlay.spec''
       = Some (file_text demo_manifest)"
  by (simp add: demo_run demo_config_sel demo_missing demo_env_sel demo_exists_def
      prefixes_of_def get_or_def is_under_prefixes_def startswith_def exit_status_def start_def)

lemma no_config_run:
  "main no_config_env w
     = (Inl SysExit2, w\<lparr>err := err w @ [''ERROR: config not found: /work/overlay.toml'']\<rparr>)"
  by (simp add: no_config_env_def main_def main_load_def parse_args_def main_read_config_def
      example_env_def resolve_def act_defs path_defs)

lemma bad_toml_run: "main bad_toml_env w = (Inl Uncaught, w)"
  by (simp add: bad_toml_env_def main_def main_load_def parse_args_def main_read_config_def
      load_config_def example_env_def resolve_def act_defs path_defs)

text \<open>
  Claim C3, at a failing input.  The run of claim C1 starts with a manifest at the output
  path.  The explicitly selected path \<open>other/missing.m\<close> does not exist, which the claim
  counts among the fatal conditions; the run nevertheless reaches \<open>write_atomic_lines\<close>,
  ends with status 0, and the file at the output path is replaced by the new manifest.
\<close>

theorem missing_explicit_path_overwrites_manifest:
  "''other/missing.m'' \<in> set (sel_paths demo_config)
   \<and> \<not> fs_exists demo_env ''/repo/other/missing.m''
   \<and> files (start old_files) ''/repo/.magma_overlay.spec'' = Some (''{'' @ NL @ ''}'' @ NL)
   \<and> exit_status (main demo_env (start old_files)) \<noteq> 2
   \<and> files (snd (main demo_env (start old_files))) ''/repo/.magma_overlay.spec''
       = Some (file_text demo_manifest)
   \<and> files (snd (main demo_env (start old_files))) ''/repo/.magma_overlay.spec''
       \<noteq> files (start old_files) ''/repo/.magma_overlay.spec''"
  by (simp add: demo_run demo_config_sel demo_env_sel demo_exists_def exit_status_def
      start_def old_files_def demo_manifest_def file_text_def NL_def)

section \<open>Selector validation: facts\<close>










































section \<open>Explicit paths: facts\<close>














section \<open>The flat format: facts\<close>

lemma valid_order_mset: "valid_order it \<Longrightarrow> finite S \<Longrightarrow> mset (it S) = mset_set S"
  unfolding valid_order_def by (metis mset_set_set)

lemma valid_order_sorted_list_of_set: "valid_order sorted_list_of_set"
  by (simp add: valid_order_def)

lemma valid_order_rev: "valid_order (\<lambda>S. rev (sorted_list_of_set S))"
  by (simp add: valid_order_def)

lemma flat_lines_spec_first:
  "flat_lines it wd S M ''spec-first'' out_dir inc
     = map (\<lambda>p. ''+'' @ relpath_posix wd p out_dir) inc
       @ map (\<lambda>p. ''+'' @ relpath_posix wd p out_dir) (sorted_list_of_set S)
       @ map (\<lambda>p. relpath_posix wd p out_dir) (sorted_list_of_set M)"
  by (simp add: flat_lines_def)

lemma flat_lines_merged:
  assumes "order_mode \<noteq> ''spec-first''"
  shows "flat_lines it wd S M order_mode out_dir inc
     = map (\<lambda>p. ''+'' @ relpath_posix wd p out_dir) inc
       @ map snd (sort_key snd (map (\<lambda>p. (0::nat, ''+'' @ relpath_posix wd p out_dir)) (it S)
                                @ map (\<lambda>p. (1, relpath_posix wd p out_dir)) (it M)))"
  using assms by (simp add: flat_lines_def)

lemma merged_body:
  fixes f g :: "string \<Rightarrow> string"
  assumes "valid_order it" and "finite S" and "finite M"
  shows "sorted (map snd (sort_key snd (map (\<lambda>p. (0::nat, f p)) (it S) @ map (\<lambda>p. (1, g p)) (it M))))"
    and "mset (map snd (sort_key snd (map (\<lambda>p. (0::nat, f p)) (it S) @ map (\<lambda>p. (1, g p)) (it M))))
          = image_mset f (mset_set S) + image_mset g (mset_set M)"
proof -
  let ?both = "map (\<lambda>p. (0::nat, f p)) (it S) @ map (\<lambda>p. (1, g p)) (it M)"
  show "sorted (map snd (sort_key snd ?both))" by (rule sorted_sort_key)
  have "mset (map snd (sort_key snd ?both)) = image_mset snd (mset ?both)"
    by simp
  also have "\<dots> = image_mset f (mset (it S)) + image_mset g (mset (it M))"
    by (simp add: image_mset.compositionality comp_def)
  finally show "mset (map snd (sort_key snd ?both)) = image_mset f (mset_set S) + image_mset g (mset_set M)"
    using assms by (simp add: valid_order_mset)
qed

text \<open>
  Claim C5.  The lines of the flat format start with the forced entries, each with a
  \<open>+\<close>, in the order given.  With the order \<open>spec-first\<close> the rest is the manifest files,
  each with a \<open>+\<close>, followed by the source files, both groups in the alphabetical order
  of their absolute paths.  With any other order the rest is the rendered lines of both
  groups together (the \<open>+\<close> being part of a manifest line), in alphabetical order.
\<close>

theorem flat_lines_order:
  assumes "build_output_lines_flat it wd S M order_mode out_dir inc = Some lines"
    and "valid_order it" and "finite S" and "finite M"
  shows "\<exists>body. lines = map (\<lambda>p. ''+'' @ relpath_posix wd p out_dir) inc @ body
           \<and> (order_mode = ''spec-first'' \<longrightarrow>
                (\<exists>ss ms. body = map (\<lambda>p. ''+'' @ relpath_posix wd p out_dir) ss
                                 @ map (\<lambda>p. relpath_posix wd p out_dir) ms
                   \<and> sorted ss \<and> distinct ss \<and> set ss = S
                   \<and> sorted ms \<and> distinct ms \<and> set ms = M))
           \<and> (order_mode \<noteq> ''spec-first'' \<longrightarrow>
                sorted body
                \<and> mset body = image_mset (\<lambda>p. ''+'' @ relpath_posix wd p out_dir) (mset_set S)
                              + image_mset (\<lambda>p. relpath_posix wd p out_dir) (mset_set M))"
proof -
  from assms(1) have lines: "lines = flat_lines it wd S M order_mode out_dir inc"
    by (simp add: build_output_lines_flat_def split: if_splits)
  show ?thesis
  proof (cases "order_mode = ''spec-first''")
    case True
    let ?body = "map (\<lambda>p. ''+'' @ relpath_posix wd p out_dir) (sorted_list_of_set S)
                 @ map (\<lambda>p. relpath_posix wd p out_dir) (sorted_list_of_set M)"
    have "\<exists>ss ms. ?body = map (\<lambda>p. ''+'' @ relpath_posix wd p out_dir) ss
                                 @ map (\<lambda>p. relpath_posix wd p out_dir) ms
                   \<and> sorted ss \<and> distinct ss \<and> set ss = S
                   \<and> sorted ms \<and> distinct ms \<and> set ms = M"
      by (rule exI[of _ "sorted_list_of_set S"], rule exI[of _ "sorted_list_of_set M"])
         (simp add: assms(3,4))
    then show ?thesis using True lines flat_lines_spec_first[of it wd S M out_dir inc]
      by (intro exI[of _ ?body]) simp
  next
    case False
    let ?body = "map snd (sort_key snd (map (\<lambda>p. (0::nat, ''+'' @ relpath_posix wd p out_dir)) (it S)
                                @ map (\<lambda>p. (1, relpath_posix wd p out_dir)) (it M)))"
    from merged_body[OF assms(2,3,4), of "\<lambda>p. ''+'' @ relpath_posix wd p out_dir"
        "\<lambda>p. relpath_posix wd p out_dir"]
    have "sorted ?body"
      and "mset ?body = image_mset (\<lambda>p. ''+'' @ relpath_posix wd p out_dir) (mset_set S)
                              + image_mset (\<lambda>p. relpath_posix wd p out_dir) (mset_set M)"
      by simp_all
    then show ?thesis using False lines flat_lines_merged[OF False, of it wd S M out_dir inc]
      by (intro exI[of _ ?body]) simp
  qed
qed


lemma escape_rel:
  "relpath_posix ''/work'' ''/repo/b/c/y.m'' ''/repo/b'' = ''c/y.m''"
  "relpath_posix ''/work'' ''/repo/z/x.m'' ''/repo/b'' = ''../z/x.m''"
  by (simp_all add: rel_defs path_defs)

lemma escape_sorted:
  "sorted_list_of_set {''/repo/b/c/y.m'', ''/repo/z/x.m''} = [''/repo/b/c/y.m'', ''/repo/z/x.m'']"
  using sorted_list_of_set_sort_remdups[of "[''/repo/b/c/y.m'', ''/repo/z/x.m'']"]
  by simp

lemma escape_flat:
  "build_output_lines_flat sorted_list_of_set ''/work'' {} {''/repo/b/c/y.m'', ''/repo/z/x.m''}
     ''spec-first'' ''/repo/b'' [] = Some [''c/y.m'', ''../z/x.m'']"
  by (simp add: build_output_lines_flat_def flat_lines_def escape_rel escape_sorted)

lemma escape_flat_merged:
  "build_output_lines_flat sorted_list_of_set ''/work'' {} {''/repo/b/c/y.m'', ''/repo/z/x.m''}
     ''alphabetical'' ''/repo/b'' [] = Some [''../z/x.m'', ''c/y.m'']"
  by (simp add: build_output_lines_flat_def flat_lines_def escape_rel escape_sorted)

text \<open>
  Claim C5, as stated, at an output directory that is not above the files: with the
  output in \<open>/repo/b\<close>, the source files \<open>/repo/b/c/y.m\<close> and \<open>/repo/z/x.m\<close> and the order
  \<open>spec-first\<close>, the lines are \<open>c/y.m\<close> and then \<open>../z/x.m\<close>: the order of the absolute
  paths, which is not the alphabetical order of the entries.
\<close>

theorem spec_first_entries_unsorted:
  "build_output_lines_flat sorted_list_of_set ''/work'' {} {''/repo/b/c/y.m'', ''/repo/z/x.m''}
     ''spec-first'' ''/repo/b'' [] = Some [''c/y.m'', ''../z/x.m'']
   \<and> \<not> sorted [''c/y.m'', ''../z/x.m'']
   \<and> sorted [''/repo/b/c/y.m'', ''/repo/z/x.m'']"
  by (simp add: escape_flat)

theorem flat_lines_order_witness:
  "build_output_lines_flat sorted_list_of_set ''/work'' {} {''/repo/b/c/y.m'', ''/repo/z/x.m''}
     ''spec-first'' ''/repo/b'' [] = Some [''c/y.m'', ''../z/x.m'']
   \<and> build_output_lines_flat sorted_list_of_set ''/work'' {} {''/repo/b/c/y.m'', ''/repo/z/x.m''}
     ''alphabetical'' ''/repo/b'' [] = Some [''../z/x.m'', ''c/y.m'']
   \<and> valid_order sorted_list_of_set
   \<and> (\<exists>ss ms. [''c/y.m'', ''../z/x.m'']
                  = map (\<lambda>p. ''+'' @ relpath_posix ''/work'' p ''/repo/b'') ss
                    @ map (\<lambda>p. relpath_posix ''/work'' p ''/repo/b'') ms
              \<and> sorted ss \<and> distinct ss \<and> set ss = {}
              \<and> sorted ms \<and> distinct ms \<and> set ms = {''/repo/b/c/y.m'', ''/repo/z/x.m''})
   \<and> sorted [''../z/x.m'', ''c/y.m'']
   \<and> mset [''../z/x.m'', ''c/y.m'']
       = image_mset (\<lambda>p. ''+'' @ relpath_posix ''/work'' p ''/repo/b'') (mset_set {})
         + image_mset (\<lambda>p. relpath_posix ''/work'' p ''/repo/b'')
             (mset_set {''/repo/b/c/y.m'', ''/repo/z/x.m''})"
proof -
  have f: "finite ({} :: string set)" "finite {''/repo/b/c/y.m'', ''/repo/z/x.m''}"
    by simp_all
  from flat_lines_order[OF escape_flat valid_order_sorted_list_of_set f]
  obtain body where b1: "[''c/y.m'', ''../z/x.m'']
          = map (\<lambda>p. ''+'' @ relpath_posix ''/work'' p ''/repo/b'') [] @ body"
    and b2: "''spec-first'' = ''spec-first'' \<longrightarrow>
             (\<exists>ss ms. body = map (\<lambda>p. ''+'' @ relpath_posix ''/work'' p ''/repo/b'') ss
                            @ map (\<lambda>p. relpath_posix ''/work'' p ''/repo/b'') ms
              \<and> sorted ss \<and> distinct ss \<and> set ss = {}
              \<and> sorted ms \<and> distinct ms
              \<and> set ms = {''/repo/b/c/y.m'', ''/repo/z/x.m''})"
    by (elim exE conjE) (rule that; assumption)
  from b1 have body: "body = [''c/y.m'', ''../z/x.m'']" by simp
  from b2 have b3: "\<exists>ss ms. body = map (\<lambda>p. ''+'' @ relpath_posix ''/work'' p ''/repo/b'') ss
                            @ map (\<lambda>p. relpath_posix ''/work'' p ''/repo/b'') ms
              \<and> sorted ss \<and> distinct ss \<and> set ss = {}
              \<and> sorted ms \<and> distinct ms
              \<and> set ms = {''/repo/b/c/y.m'', ''/repo/z/x.m''}"
    by (rule mp) (rule refl)
  from flat_lines_order[OF escape_flat_merged valid_order_sorted_list_of_set f]
  obtain body' where c1: "[''../z/x.m'', ''c/y.m'']
          = map (\<lambda>p. ''+'' @ relpath_posix ''/work'' p ''/repo/b'') [] @ body'"
    and c2: "''alphabetical'' \<noteq> ''spec-first'' \<longrightarrow>
             sorted body'
             \<and> mset body' = image_mset (\<lambda>p. ''+'' @ relpath_posix ''/work'' p ''/repo/b'')
                               (mset_set {})
                             + image_mset (\<lambda>p. relpath_posix ''/work'' p ''/repo/b'')
                               (mset_set {''/repo/b/c/y.m'', ''/repo/z/x.m''})"
    by (elim exE conjE) (rule that; assumption)
  from c1 have body': "body' = [''../z/x.m'', ''c/y.m'']" by simp
  have ne: "''alphabetical'' \<noteq> ''spec-first''" by simp
  from c2[THEN mp, OF ne] have c3: "sorted body'" 
    and c4: "mset body' = image_mset (\<lambda>p. ''+'' @ relpath_posix ''/work'' p ''/repo/b'')
                               (mset_set {})
                             + image_mset (\<lambda>p. relpath_posix ''/work'' p ''/repo/b'')
                               (mset_set {''/repo/b/c/y.m'', ''/repo/z/x.m''})"
    by (rule conjunct1, rule conjunct2)
  show ?thesis
    using escape_flat escape_flat_merged valid_order_sorted_list_of_set
      b3[unfolded body] c3[unfolded body'] c4[unfolded body']
    by (intro conjI)
qed

section \<open>How a run ends: facts\<close>

lemma ends_ok_status: "ends_ok e w r \<Longrightarrow> exit_status r = 0"
proof -
  assume "ends_ok e w r"
  then obtain x where "r = (Inr (), x)" unfolding ends_ok_def by (elim exE conjE) (rule that)
  then show ?thesis by (simp add: exit_status_def)
qed

lemma ends_help_status: "ends_help e w r \<Longrightarrow> exit_status r = 0"
proof -
  assume "ends_help e w r"
  then obtain x where "r = (Inl SysExit0, x)" unfolding ends_help_def by (elim exE conjE) (rule that)
  then show ?thesis by (simp add: exit_status_def)
qed

text \<open>
  Claim C7, as amended.  A run ends in one of four ways.  With status 0, after writing
  the manifest and printing the summary line, or after printing the help text.  With
  status 2, after printing at least one diagnostic, with no file written and nothing on
  standard output.  Or with an exception that the program does not catch: the
  interpreter exits with status 1, and the program has printed nothing on standard
  output.
\<close>

theorem run_ends_three_ways:
  "(exit_status (main e w) = 0 \<and> (ends_ok e w (main e w) \<or> ends_help e w (main e w)))
   \<or> (exit_status (main e w) = 2 \<and> ends_fatal w (main e w))
   \<or> (exit_status (main e w) = 1 \<and> ends_traceback w (main e w))"
proof -
  from main_ends[of e w] consider
      (ok) "ends_ok e w (main e w)" | (hlp) "ends_help e w (main e w)"
    | (fatal) "ends_fatal w (main e w)" | (traceback) "ends_traceback w (main e w)"
    unfolding ends_def by blast
  then show ?thesis
  proof cases
    case ok
    then have "exit_status (main e w) = 0" by (rule ends_ok_status)
    with ok show ?thesis by simp
  next
    case hlp
    then have "exit_status (main e w) = 0" by (rule ends_help_status)
    with hlp show ?thesis by simp
  next
    case fatal
    then have "exit_status (main e w) = 2" by (simp add: ends_fatal_def exit_status_def)
    with fatal show ?thesis by simp
  next
    case traceback
    then have "exit_status (main e w) = 1" by (simp add: ends_traceback_def exit_status_def)
    with traceback show ?thesis by simp
  qed
qed

text \<open>
  Claim C7, as stated, at a configuration file that exists but is not valid TOML:
  \<open>load_config\<close> raises, nothing catches the exception, and the exit status is 1 without
  any diagnostic of the program's own.
\<close>

theorem malformed_config_exits_1:
  "fs_is_file bad_toml_env ''/work/overlay.toml''
   \<and> toml_load bad_toml_env ''/work/overlay.toml'' = None
   \<and> exit_status (main bad_toml_env (start old_files)) = 1
   \<and> err (snd (main bad_toml_env (start old_files))) = []"
  by (simp add: bad_toml_run exit_status_def start_def)
     (simp add: bad_toml_env_def example_env_def)

end
